theory Spec2Isabelle
  imports Main
begin

section \<open>The telemetry code generator (telemetry/vscode/src/generate.ts)\<close>

text \<open>
  A shallow embedding of \<^verbatim>\<open>generate.ts\<close>. JavaScript strings are modelled as
  \<^typ>\<open>string\<close> (one \<^typ>\<open>char\<close> per code unit, for code units below 256), optional
  properties (\<^verbatim>\<open>x?: T\<close>) as \<^typ>\<open>'a option\<close>, a thrown exception as
  \<open>Inl\<close> of a sum, and the module-level array \<^verbatim>\<open>exportedTypes\<close> as a state that
  every function touching it takes and returns (also when it throws: a push that
  happened before the exception stays).
\<close>

subsection \<open>Errors\<close>

text \<open>The two exception classes the module throws, each with its message.\<close>

datatype error = Error string | TypeError string

text \<open>
  The message of the engine's own TypeError for \<^verbatim>\<open>undefined.toUpperCase()\<close>
  (the wording is V8's; only the class matters below).
\<close>

definition undefinedToUpperCase :: string where
  "undefinedToUpperCase = ''Cannot read properties of undefined (reading 'toUpperCase')''"

subsection \<open>String primitives of the JavaScript runtime\<close>

text \<open>\<^verbatim>\<open>`'${v}'`\<close>: the text between two single quotes.\<close>

definition quoted :: "string \<Rightarrow> string" where
  "quoted v = [CHR 0x27] @ v @ [CHR 0x27]"

text \<open>\<^verbatim>\<open>Array.prototype.join\<close> on an array of strings.\<close>

fun join :: "string \<Rightarrow> string list \<Rightarrow> string" where
  "join sep [] = []"
| "join sep [x] = x"
| "join sep (x # y # ys) = x @ sep @ join sep (y # ys)"

text \<open>
  \<^verbatim>\<open>String.prototype.split\<close> with a one-character separator: the empty string
  splits into one empty segment, and a separator at either end or two in a row
  give an empty segment.
\<close>

fun split :: "char \<Rightarrow> string \<Rightarrow> string list" where
  "split c [] = [[]]"
| "split c (x # xs) =
     (if x = c then [] # split c xs
      else (case split c xs of [] \<Rightarrow> [[x]] | y # ys \<Rightarrow> (x # y) # ys))"

text \<open>
  \<^verbatim>\<open>String.prototype.toUpperCase\<close> on one code unit below 256, by the Unicode case
  mappings: the letters \<open>a\<close> to \<open>z\<close> and the letters U+00E0 to U+00FE (but the
  division sign U+00F7) move down by 32; the sharp s U+00DF becomes the two letters
  \<open>SS\<close>; every other code unit stays. The upper-case forms of the micro sign U+00B5
  and of U+00FF are U+039C and U+0178, which are not code units below 256: the model
  leaves these two as they are, and \<open>upperCaseInRange\<close> excludes them wherever a
  statement speaks of the upper-cased character.
\<close>

definition toUpperCase_char :: "char \<Rightarrow> string" where
  "toUpperCase_char c =
     (let n = (of_char c :: nat)
      in if 97 \<le> n \<and> n \<le> 122 then [char_of (n - 32)]
         else if n = 223 then ''SS''
         else if 224 \<le> n \<and> n \<le> 254 \<and> n \<noteq> 247 then [char_of (n - 32)]
         else [c])"

definition upperCaseInRange :: "char \<Rightarrow> bool" where
  "upperCaseInRange c = ((of_char c :: nat) \<noteq> 181 \<and> (of_char c :: nat) \<noteq> 255)"

definition toUpperCase :: "string \<Rightarrow> string" where
  "toUpperCase s = concat (map toUpperCase_char s)"

text \<open>
  \<^verbatim>\<open>s.replace(pat, rep)\<close> with a string pattern: the first occurrence of
  \<open>pat\<close> is replaced (the replacement here is the upper-case form of one character,
  so the \<^verbatim>\<open>$\<close> patterns of a replacement string never apply).
\<close>

fun replace :: "string \<Rightarrow> string \<Rightarrow> string \<Rightarrow> string" where
  "replace [] pat rep = (if pat = [] then rep else [])"
| "replace (x # xs) pat rep =
     (if take (length pat) (x # xs) = pat then rep @ drop (length pat) (x # xs)
      else x # replace xs pat rep)"

text \<open>\<^verbatim>\<open>String.prototype.includes\<close>: \<open>t\<close> occurs in \<open>s\<close> as a substring.\<close>

fun includes_str :: "string \<Rightarrow> string \<Rightarrow> bool" where
  "includes_str [] t = (t = [])"
| "includes_str (x # xs) t = (take (length t) (x # xs) = t \<or> includes_str xs t)"

text \<open>\<^verbatim>\<open>Array.prototype.map\<close> with a callback that may throw: the first throw ends it.\<close>

fun mapE :: "('a \<Rightarrow> error + 'b) \<Rightarrow> 'a list \<Rightarrow> error + 'b list" where
  "mapE f [] = Inr []"
| "mapE f (x # xs) =
     (case f x of
        Inl e \<Rightarrow> Inl e
      | Inr y \<Rightarrow> (case mapE f xs of Inl e \<Rightarrow> Inl e | Inr ys \<Rightarrow> Inr (y # ys)))"

text \<open>The same with a callback that also reads and updates a state.\<close>

fun mapM :: "('a \<Rightarrow> 's \<Rightarrow> (error + 'b) \<times> 's) \<Rightarrow> 'a list \<Rightarrow> 's \<Rightarrow> (error + 'b list) \<times> 's" where
  "mapM f [] s = (Inr [], s)"
| "mapM f (x # xs) s =
     (case f x s of
        (Inl e, s') \<Rightarrow> (Inl e, s')
      | (Inr y, s') \<Rightarrow>
          (case mapM f xs s' of
             (Inl e, s'') \<Rightarrow> (Inl e, s'')
           | (Inr ys, s'') \<Rightarrow> (Inr (y # ys), s'')))"

text \<open>
  lodash's \<^verbatim>\<open>_.uniqBy(array, 'name')\<close>, as its documentation states it: of the
  elements with one key only the first is kept, in the order of the array.
\<close>

fun uniqBy :: "('a \<Rightarrow> 'k) \<Rightarrow> 'a list \<Rightarrow> 'a list" where
  "uniqBy f [] = []"
| "uniqBy f (x # xs) = x # uniqBy f (filter (\<lambda>y. f y \<noteq> f x) xs)"

subsection \<open>Name conversion\<close>

text \<open>
  \<^verbatim>\<open>s.replace(s[0], s[0].toUpperCase())\<close>: on the empty string \<^verbatim>\<open>s[0]\<close> is
  \<^verbatim>\<open>undefined\<close>, and calling \<^verbatim>\<open>toUpperCase\<close> on it throws a TypeError.
\<close>

definition toTitleCase :: "string \<Rightarrow> error + string" where
  "toTitleCase s =
     (case s of
        [] \<Rightarrow> Inl (TypeError undefinedToUpperCase)
      | c # _ \<Rightarrow> Inr (replace s [c] (toUpperCase [c])))"

definition snakeCaseToPascalCase :: "string \<Rightarrow> error + string" where
  "snakeCaseToPascalCase s =
     (case mapE toTitleCase (split (CHR ''_'') s) of
        Inl e \<Rightarrow> Inl e
      | Inr parts \<Rightarrow> Inr (join [] parts))"

subsection \<open>The schema (types of parser.ts)\<close>

text \<open>
  Modelled from the spec: the declarations of \<^verbatim>\<open>MetadataType\<close>,
  \<^verbatim>\<open>MetricMetadataType\<close>, \<^verbatim>\<open>Metric\<close> and \<^verbatim>\<open>MetricDefinitionRoot\<close> are
  imported from \<^verbatim>\<open>./parser\<close>, which is not among the sources. The records follow
  the spec's data model and the properties \<^verbatim>\<open>generate.ts\<close> reads. The kind of a
  metadata type is kept as the string the document gives, since the generator has a
  branch for a kind outside the four known ones.
\<close>

record MetadataType =
  mt_name :: string
  mt_description :: string
  mt_allowedValues :: "string list option"
  mt_type :: "string option"

text \<open>A metadata type together with the \<^verbatim>\<open>required\<close> flag of the reference to it.\<close>

record MetricMetadataType = MetadataType +
  required :: bool

text \<open>An entry of a metric's \<^verbatim>\<open>metadata\<close>: the name of a metadata type, and the flag.\<close>

record MetricMetadata =
  mm_type :: string
  mm_required :: "bool option"

record Metric =
  m_name :: string
  m_description :: string
  m_unit :: "string option"
  m_passive :: "bool option"
  m_trackPerformance :: "bool option"
  m_metadata :: "MetricMetadata list option"

record MetricDefinitionRoot =
  r_types :: "MetadataType list option"
  r_metrics :: "Metric list"

subsection \<open>The declarations handed to the AST builder (ts-morph structures)\<close>

record PropertySignatureStructure =
  ps_isReadonly :: bool
  ps_hasQuestionToken :: "bool option"
  ps_name :: string
  ps_type :: string
  ps_docs :: "string list"

record ParameterDeclarationStructure =
  pa_name :: string
  pa_type :: string
  pa_hasQuestionToken :: "bool option"

record MethodSignatureStructure =
  ms_docs :: "string list"
  ms_name :: string
  ms_typeParameters :: "string list"
  ms_returnType :: string
  ms_parameters :: "ParameterDeclarationStructure list"

record InterfaceDeclarationStructure =
  i_name :: string
  i_isExported :: bool
  i_extends :: "string list"
  i_typeParameters :: "string list"
  i_docs :: "string list"
  i_properties :: "PropertySignatureStructure list"
  i_methods :: "MethodSignatureStructure list"

record TypeAliasDeclarationStructure =
  ta_name :: string
  ta_isExported :: bool
  ta_typeParameters :: "string list"
  ta_type :: string

record VariableDeclarationStructure =
  vd_name :: string
  vd_type :: string
  vd_initializer :: string

record VariableStatementStructure =
  vs_isExported :: bool
  vs_declarations :: "VariableDeclarationStructure list"

datatype Scope = Public | Protected

record MethodDeclarationStructure =
  md_name :: string
  md_scope :: Scope
  md_parameters :: "ParameterDeclarationStructure list"
  md_returnType :: string
  md_isAbstract :: bool

record GetAccessorDeclarationStructure =
  ga_scope :: Scope
  ga_name :: string
  ga_docs :: "string list"
  ga_returnType :: string
  ga_statements :: string

record ClassDeclarationStructure =
  c_name :: string
  c_isAbstract :: bool
  c_methods :: "MethodDeclarationStructure list"
  c_getAccessors :: "GetAccessorDeclarationStructure list"
  c_isExported :: bool

text \<open>A source file: its path, the text it was created with, the statements added, in order.\<close>

datatype Statement =
  InterfaceDecl InterfaceDeclarationStructure
| TypeAliasDecl TypeAliasDeclarationStructure
| VariableStmt VariableStatementStructure
| ClassDecl ClassDeclarationStructure

record SourceFile =
  sf_filePath :: string
  sf_text :: string
  sf_statements :: "Statement list"

subsection \<open>Merging the input documents (the first half of generate)\<close>

text \<open>
  The \<^verbatim>\<open>reduce\<close> over the validated documents: each document's types (none when
  the document has no \<^verbatim>\<open>types\<close>, which is \<^verbatim>\<open>input.types ?? []\<close>) and metrics
  are pushed onto the accumulator, which starts with two empty arrays.
\<close>

definition inputTypes :: "MetricDefinitionRoot \<Rightarrow> MetadataType list" where
  "inputTypes input = (case r_types input of None \<Rightarrow> [] | Some ts \<Rightarrow> ts)"

definition rawDefinitions :: "MetricDefinitionRoot list \<Rightarrow> MetricDefinitionRoot" where
  "rawDefinitions docs =
     foldl (\<lambda>item input.
        \<lparr> r_types = (case r_types item of
                       None \<Rightarrow> None
                     | Some ts \<Rightarrow> Some (ts @ inputTypes input)),
          r_metrics = r_metrics item @ r_metrics input \<rparr>)
       \<lparr> r_types = Some [], r_metrics = [] \<rparr> docs"

text \<open>
  The object \<^verbatim>\<open>input\<close>: both arrays without the later entries of a name that
  occurred before.
\<close>

definition mergedInput :: "MetricDefinitionRoot list \<Rightarrow> MetricDefinitionRoot" where
  "mergedInput docs =
     \<lparr> r_types = Some (uniqBy mt_name (inputTypes (rawDefinitions docs))),
       r_metrics = uniqBy m_name (r_metrics (rawDefinitions docs)) \<rparr>"

subsection \<open>Resolving a metadata type\<close>

text \<open>
  \<^verbatim>\<open>exportedTypes\<close> is the last argument and the second component of the result.
  An \<^verbatim>\<open>allowedValues\<close> array is truthy also when it is empty.
\<close>

definition getArgsFromMetadata ::
  "'a MetadataType_scheme \<Rightarrow> TypeAliasDeclarationStructure list
     \<Rightarrow> (error + string) \<times> TypeAliasDeclarationStructure list" where
  "getArgsFromMetadata m exportedTypes =
     (case mt_allowedValues m of
        Some allowedValues \<Rightarrow>
          (case toTitleCase (mt_name m) of
             Inl e \<Rightarrow> (Inl e, exportedTypes)
           | Inr name \<Rightarrow>
               (case find (\<lambda>tt. ta_name tt = name) exportedTypes of
                  None \<Rightarrow>
                    (Inr name,
                     exportedTypes @
                       [\<lparr> ta_name = name, ta_isExported = True, ta_typeParameters = [],
                          ta_type = join '' | '' (map quoted allowedValues) \<rparr>])
                | Some mm \<Rightarrow> (Inr name, exportedTypes)))
      | None \<Rightarrow>
          (case mt_type m of
             None \<Rightarrow> (Inr ''string'', exportedTypes)
           | Some t \<Rightarrow>
               if t = ''string'' then (Inr ''string'', exportedTypes)
               else if t = ''double'' \<or> t = ''int'' then (Inr ''number'', exportedTypes)
               else if t = ''boolean'' then (Inr ''boolean'', exportedTypes)
               else (Inl (TypeError (''unknown type '' @ t @ '' in metadata '' @ mt_name m)),
                     exportedTypes)))"

text \<open>The parameter \<^verbatim>\<open>types\<close> defaults to the empty array when it is undefined.\<close>

definition getTypeOrThrow :: "MetadataType list option \<Rightarrow> string \<Rightarrow> error + MetadataType" where
  "getTypeOrThrow types name =
     (case find (\<lambda>t. mt_name t = name) (case types of None \<Rightarrow> [] | Some ts \<Rightarrow> ts) of
        None \<Rightarrow> Inl (Error (''did not find type: '' @ name))
      | Some t \<Rightarrow> Inr t)"

subsection \<open>Constants of the module\<close>

definition baseName :: string where
  "baseName = ''MetricBase''"

definition commonMetadata :: "string list" where
  "commonMetadata =
     [''awsAccount'', ''awsRegion'', ''duration'', ''httpStatusCode'', ''reason'',
      ''reasonDesc'', ''requestId'', ''requestServiceType'', ''result'', ''source'']"

definition optionalMetadata :: "string list" where
  "optionalMetadata = [''awsRegion'']"

text \<open>The constant \<^verbatim>\<open>passive\<close> of the module.\<close>

definition passive_prop :: PropertySignatureStructure where
  "passive_prop = \<lparr> ps_isReadonly = True, ps_hasQuestionToken = Some True, ps_name = ''passive'',
     ps_type = ''boolean'',
     ps_docs = [''A flag indicating that the metric was not caused by the user.''] \<rparr>"

definition trackPerformance :: PropertySignatureStructure where
  "trackPerformance = \<lparr> ps_isReadonly = True, ps_hasQuestionToken = Some True,
     ps_name = ''trackPerformance'', ps_type = ''boolean'',
     ps_docs = [''A flag indicating that the metric should track run-time performance information''] \<rparr>"

definition traceId :: PropertySignatureStructure where
  "traceId = \<lparr> ps_isReadonly = True, ps_hasQuestionToken = Some True, ps_name = ''traceId'',
     ps_type = ''string'',
     ps_docs = [''Unique identifier for the trace (a set of events) this metric belongs to''] \<rparr>"

definition metricId :: PropertySignatureStructure where
  "metricId = \<lparr> ps_isReadonly = True, ps_hasQuestionToken = Some True, ps_name = ''metricId'',
     ps_type = ''string'', ps_docs = [''Unique identifier for this metric''] \<rparr>"

definition parentId :: PropertySignatureStructure where
  "parentId = \<lparr> ps_isReadonly = True, ps_hasQuestionToken = Some True, ps_name = ''parentId'',
     ps_type = ''string'', ps_docs = [''Unique identifier of the parent of this metric''] \<rparr>"

text \<open>The constant \<^verbatim>\<open>value\<close> of the module.\<close>

definition value_prop :: PropertySignatureStructure where
  "value_prop = \<lparr> ps_isReadonly = True, ps_hasQuestionToken = Some True, ps_name = ''value'',
     ps_type = ''number'',
     ps_docs = [''@deprecated Arbitrary '' @ [CHR 0x22] @ ''value'' @ [CHR 0x22] @ '' of the metric.''] \<rparr>"

definition runtimeMetricDefinition :: InterfaceDeclarationStructure where
  "runtimeMetricDefinition =
     \<lparr> i_name = ''MetricDefinition'', i_isExported = True, i_extends = [],
       i_typeParameters = [], i_docs = [],
       i_properties =
         [\<lparr> ps_isReadonly = True, ps_hasQuestionToken = None, ps_name = ''unit'',
            ps_type = ''string'', ps_docs = [] \<rparr>,
          \<lparr> ps_isReadonly = True, ps_hasQuestionToken = None, ps_name = ''passive'',
            ps_type = ''boolean'', ps_docs = [] \<rparr>,
          \<lparr> ps_isReadonly = True, ps_hasQuestionToken = None, ps_name = ''trackPerformance'',
            ps_type = ''boolean'', ps_docs = [] \<rparr>,
          \<lparr> ps_isReadonly = True, ps_hasQuestionToken = None, ps_name = ''requiredMetadata'',
            ps_type = ''readonly string[]'', ps_docs = [] \<rparr>],
       i_methods = [] \<rparr>"

definition header :: string where
  "header = ''/*!'' @ [CHR 0x0A] @
     '' * Copyright Amazon.com, Inc. or its affiliates. All Rights Reserved.'' @ [CHR 0x0A] @
     '' * SPDX-License-Identifier: Apache-2.0'' @ [CHR 0x0A] @
     '' */'' @ [CHR 0x0A]"

subsection \<open>Properties and interfaces\<close>

text \<open>Converts snake case to PascalCase, e.g. \<^verbatim>\<open>lambda_invoke\<close> to \<^verbatim>\<open>LambdaInvoke\<close>.\<close>

definition metricToTypeName :: "Metric \<Rightarrow> error + string" where
  "metricToTypeName m = snakeCaseToPascalCase (m_name m)"

definition getMetricMetadata :: "Metric \<Rightarrow> MetricMetadata list" where
  "getMetricMetadata metric =
     (case m_metadata metric of
        None \<Rightarrow> []
      | Some ms \<Rightarrow> filter (\<lambda>m. mm_type m \<notin> set commonMetadata) ms)"

definition generateMetadataProperty ::
  "MetricMetadataType \<Rightarrow> TypeAliasDeclarationStructure list
     \<Rightarrow> (error + PropertySignatureStructure) \<times> TypeAliasDeclarationStructure list" where
  "generateMetadataProperty metadata exportedTypes =
     (case getArgsFromMetadata metadata exportedTypes of
        (Inl e, exportedTypes') \<Rightarrow> (Inl e, exportedTypes')
      | (Inr ty, exportedTypes') \<Rightarrow>
          (Inr \<lparr> ps_isReadonly = True, ps_hasQuestionToken = Some (\<not> required metadata),
                 ps_name = mt_name metadata, ps_type = ty,
                 ps_docs = [mt_description metadata] \<rparr>,
           exportedTypes'))"

text \<open>
  The closure \<^verbatim>\<open>toProp\<close> of \<^verbatim>\<open>generateMetricBase\<close>: the type found, spread
  after \<^verbatim>\<open>required: false\<close>.
\<close>

definition toProp ::
  "MetadataType list option \<Rightarrow> string \<Rightarrow> TypeAliasDeclarationStructure list
     \<Rightarrow> (error + PropertySignatureStructure) \<times> TypeAliasDeclarationStructure list" where
  "toProp types name exportedTypes =
     (case getTypeOrThrow types name of
        Inl e \<Rightarrow> (Inl e, exportedTypes)
      | Inr t \<Rightarrow>
          generateMetadataProperty
            \<lparr> mt_name = mt_name t, mt_description = mt_description t,
              mt_allowedValues = mt_allowedValues t, mt_type = mt_type t, required = False \<rparr>
            exportedTypes)"

definition generateMetricBase ::
  "MetadataType list option \<Rightarrow> TypeAliasDeclarationStructure list
     \<Rightarrow> (error + InterfaceDeclarationStructure) \<times> TypeAliasDeclarationStructure list" where
  "generateMetricBase types exportedTypes =
     (case mapM (toProp types) commonMetadata exportedTypes of
        (Inl e, exportedTypes') \<Rightarrow> (Inl e, exportedTypes')
      | (Inr props, exportedTypes') \<Rightarrow>
          (Inr \<lparr> i_name = baseName, i_isExported = True, i_extends = [], i_typeParameters = [],
                 i_docs = [],
                 i_properties =
                   props @ [passive_prop, value_prop, trackPerformance, traceId, metricId, parentId],
                 i_methods = [] \<rparr>,
           exportedTypes'))"

text \<open>
  The callback of \<^verbatim>\<open>generateMetricInterface\<close>: the type found, with
  \<^verbatim>\<open>required: m.required ?? true\<close> spread over it.
\<close>

definition metricProperty ::
  "MetadataType list option \<Rightarrow> MetricMetadata \<Rightarrow> TypeAliasDeclarationStructure list
     \<Rightarrow> (error + PropertySignatureStructure) \<times> TypeAliasDeclarationStructure list" where
  "metricProperty types m exportedTypes =
     (case getTypeOrThrow types (mm_type m) of
        Inl e \<Rightarrow> (Inl e, exportedTypes)
      | Inr t \<Rightarrow>
          generateMetadataProperty
            \<lparr> mt_name = mt_name t, mt_description = mt_description t,
              mt_allowedValues = mt_allowedValues t, mt_type = mt_type t,
              required = (case mm_required m of None \<Rightarrow> True | Some b \<Rightarrow> b) \<rparr>
            exportedTypes)"

text \<open>The object literal evaluates \<^verbatim>\<open>name\<close> before \<^verbatim>\<open>properties\<close>.\<close>

definition generateMetricInterface ::
  "Metric \<Rightarrow> MetadataType list option \<Rightarrow> TypeAliasDeclarationStructure list
     \<Rightarrow> (error + InterfaceDeclarationStructure) \<times> TypeAliasDeclarationStructure list" where
  "generateMetricInterface metric types exportedTypes =
     (case metricToTypeName metric of
        Inl e \<Rightarrow> (Inl e, exportedTypes)
      | Inr name \<Rightarrow>
          (case mapM (metricProperty types) (getMetricMetadata metric) exportedTypes of
             (Inl e, exportedTypes') \<Rightarrow> (Inl e, exportedTypes')
           | (Inr props, exportedTypes') \<Rightarrow>
               (Inr \<lparr> i_name = name, i_isExported = True, i_extends = [baseName],
                      i_typeParameters = [], i_docs = [], i_properties = props,
                      i_methods = [] \<rparr>,
                exportedTypes')))"

definition generateMetricRecorder ::
  "TypeAliasDeclarationStructure \<Rightarrow> InterfaceDeclarationStructure" where
  "generateMetricRecorder metadataType =
     \<lparr> i_name = ''Metric'', i_isExported = True, i_extends = [],
       i_typeParameters = [''T extends '' @ baseName @ '' = '' @ baseName], i_docs = [],
       i_properties =
         [\<lparr> ps_isReadonly = True, ps_hasQuestionToken = None, ps_name = ''name'',
            ps_type = ''string'', ps_docs = [] \<rparr>],
       i_methods =
         [\<lparr> ms_docs = [''Sends the metric to the telemetry service''], ms_name = ''emit'',
            ms_typeParameters = [], ms_returnType = ''void'',
            ms_parameters =
              [\<lparr> pa_name = ''data'', pa_type = ''T'', pa_hasQuestionToken = Some True \<rparr>] \<rparr>,
          \<lparr> ms_docs = [''Executes a callback, automatically sending the metric after completion''],
            ms_name = ''run'', ms_typeParameters = [''U''], ms_returnType = ''U'',
            ms_parameters =
              [\<lparr> pa_name = ''fn'', pa_type = ''(span: Span<T>) => U'',
                 pa_hasQuestionToken = None \<rparr>] \<rparr>] \<rparr>"

definition generateTelemetryHelper ::
  "InterfaceDeclarationStructure \<Rightarrow> Metric list \<Rightarrow> error + ClassDeclarationStructure" where
  "generateTelemetryHelper recorder metrics =
     (let getMetric =
            \<lparr> md_name = ''getMetric'', md_scope = Protected,
              md_parameters =
                [\<lparr> pa_name = ''name'', pa_type = ''string'', pa_hasQuestionToken = None \<rparr>],
              md_returnType = i_name recorder, md_isAbstract = True \<rparr>
      in case mapE (\<lambda>m.
                case metricToTypeName m of
                  Inl e \<Rightarrow> Inl e
                | Inr tn \<Rightarrow>
                    Inr \<lparr> ga_scope = Public, ga_name = m_name m, ga_docs = [m_description m],
                          ga_returnType = i_name recorder @ ''<'' @ tn @ ''>'',
                          ga_statements =
                            ''return this.'' @ md_name getMetric @ ''('' @ quoted (m_name m) @ '')'' \<rparr>)
             metrics of
           Inl e \<Rightarrow> Inl e
         | Inr accessors \<Rightarrow>
             Inr \<lparr> c_name = ''TelemetryBase'', c_isAbstract = True, c_methods = [getMetric],
                   c_getAccessors = accessors, c_isExported = True \<rparr>)"

definition generateMetricShapeMap :: "Metric list \<Rightarrow> error + InterfaceDeclarationStructure" where
  "generateMetricShapeMap metrics =
     (case mapE (\<lambda>m.
              case metricToTypeName m of
                Inl e \<Rightarrow> Inl e
              | Inr tn \<Rightarrow>
                  Inr \<lparr> ps_isReadonly = True, ps_hasQuestionToken = None,
                        ps_name = quoted (m_name m), ps_type = tn, ps_docs = [] \<rparr>)
           metrics of
        Inl e \<Rightarrow> Inl e
      | Inr props \<Rightarrow>
          Inr \<lparr> i_name = ''MetricShapes'', i_isExported = True, i_extends = [],
                i_typeParameters = [], i_docs = [], i_properties = props, i_methods = [] \<rparr>)"

subsection \<open>The runtime table\<close>

text \<open>A boolean in a template string.\<close>

definition bool_str :: "bool \<Rightarrow> string" where
  "bool_str b = (if b then ''true'' else ''false'')"

text \<open>
  The callback of \<^verbatim>\<open>generateDefinitions\<close>: the entry of one metric. Its local
  \<^verbatim>\<open>metadataTypes\<close>, the quoted names of the required references, is a
  definition of its own.
\<close>

definition metadataTypes :: "Metric \<Rightarrow> string list" where
  "metadataTypes m =
     map (\<lambda>m. quoted (mm_type m))
       (filter (\<lambda>m. case mm_required m of None \<Rightarrow> True | Some b \<Rightarrow> b) (getMetricMetadata m))"

definition definitionsField :: "Metric \<Rightarrow> string" where
  "definitionsField m =
     (let requiredMetadata = ''['' @ join '', '' (metadataTypes m) @ '']''
      in m_name m @ '': { unit: '' @ quoted (case m_unit m of None \<Rightarrow> ''None'' | Some u \<Rightarrow> u)
           @ '', passive: '' @ bool_str (case m_passive m of None \<Rightarrow> False | Some b \<Rightarrow> b)
           @ '', trackPerformance: ''
           @ bool_str (case m_trackPerformance m of None \<Rightarrow> False | Some b \<Rightarrow> b)
           @ '', requiredMetadata: '' @ requiredMetadata @ '' }'')"

definition generateDefinitions :: "Metric list \<Rightarrow> VariableStatementStructure" where
  "generateDefinitions metrics =
     (let fields = map definitionsField metrics
      in \<lparr> vs_isExported = True,
           vs_declarations =
             [\<lparr> vd_name = ''definitions'',
                vd_type = ''Record<string, '' @ i_name runtimeMetricDefinition @ ''>'',
                vd_initializer = ''{ '' @ join ('','' @ [CHR 0x0A]) fields @ '' }'' \<rparr>] \<rparr>)"

subsection \<open>The generated file\<close>

text \<open>
  \<^verbatim>\<open>generateFile\<close>: the base interface first, then one interface per metric in
  order, then every alias that \<^verbatim>\<open>exportedTypes\<close> holds at that moment, then the
  fixed declarations and the runtime table. The first exception ends the call, and
  \<^verbatim>\<open>exportedTypes\<close> keeps what had been pushed until then.
\<close>

definition generateFile ::
  "MetricDefinitionRoot \<Rightarrow> string \<Rightarrow> TypeAliasDeclarationStructure list
     \<Rightarrow> (error + SourceFile) \<times> TypeAliasDeclarationStructure list" where
  "generateFile telemetryJson dest exportedTypes =
     (case generateMetricBase (r_types telemetryJson) exportedTypes of
        (Inl e, exportedTypes1) \<Rightarrow> (Inl e, exportedTypes1)
      | (Inr base, exportedTypes1) \<Rightarrow>
     (case mapM (\<lambda>m. generateMetricInterface m (r_types telemetryJson))
             (r_metrics telemetryJson) exportedTypes1 of
        (Inl e, exportedTypes2) \<Rightarrow> (Inl e, exportedTypes2)
      | (Inr interfaces, exportedTypes2) \<Rightarrow>
     (case generateMetricShapeMap (r_metrics telemetryJson) of
        Inl e \<Rightarrow> (Inl e, exportedTypes2)
      | Inr metricsMap \<Rightarrow>
     (let metadataType =
            \<lparr> ta_name = ''Metadata'', ta_isExported = True,
              ta_typeParameters = [''T extends '' @ baseName],
              ta_type = ''Partial<Omit<T, keyof '' @ baseName @ ''> | Partial<Pick<'' @ baseName
                @ '', '' @ join '' | '' (map quoted optionalMetadata) @ ''>>>'' \<rparr>;
          span =
            \<lparr> i_name = ''Span'', i_isExported = True, i_extends = [], i_typeParameters = [''T''],
              i_docs = [''Represents a telemetry span for tracking and recording metric data.''],
              i_properties = [],
              i_methods =
                [\<lparr> ms_docs = [], ms_name = ''record'', ms_typeParameters = [],
                   ms_returnType = ''this'',
                   ms_parameters =
                     [\<lparr> pa_name = ''data'', pa_type = ''Partial<T>'',
                        pa_hasQuestionToken = None \<rparr>] \<rparr>] \<rparr>;
          definitions = generateDefinitions (r_metrics telemetryJson);
          recorder = generateMetricRecorder metadataType
      in case generateTelemetryHelper recorder (r_metrics telemetryJson) of
           Inl e \<Rightarrow> (Inl e, exportedTypes2)
         | Inr helper \<Rightarrow>
             (Inr \<lparr> sf_filePath = dest, sf_text = header,
                    sf_statements =
                      [InterfaceDecl base] @ map InterfaceDecl interfaces
                      @ map TypeAliasDecl exportedTypes2
                      @ [InterfaceDecl runtimeMetricDefinition, InterfaceDecl metricsMap,
                         TypeAliasDecl
                           \<lparr> ta_name = ''MetricName'', ta_isExported = True,
                             ta_typeParameters = [], ta_type = ''keyof '' @ i_name metricsMap \<rparr>,
                         VariableStmt definitions, TypeAliasDecl metadataType,
                         InterfaceDecl span, InterfaceDecl recorder, ClassDecl helper] \<rparr>,
              exportedTypes2)))))"

subsection \<open>A run of the generator\<close>

text \<open>
  What \<^verbatim>\<open>generate\<close> reads and changes outside its arguments: the module's
  \<^verbatim>\<open>exportedTypes\<close>, and the files written (path and content, in order).
\<close>

record World =
  w_exportedTypes :: "TypeAliasDeclarationStructure list"
  w_written :: "(string \<times> SourceFile) list"

text \<open>
  \<^verbatim>\<open>generate\<close>, from the validated documents on (reading and validating the
  input files is the parser's work): merge, generate the file, and write it. The
  file is written last, so an exception before that leaves no file. Formatting the
  text is left to the formatter and not modelled.
\<close>

definition generate ::
  "MetricDefinitionRoot list \<Rightarrow> string \<Rightarrow> World \<Rightarrow> (error + unit) \<times> World" where
  "generate docs outputFile w =
     (case generateFile (mergedInput docs) outputFile (w_exportedTypes w) of
        (Inl e, exportedTypes') \<Rightarrow> (Inl e, w\<lparr> w_exportedTypes := exportedTypes' \<rparr>)
      | (Inr output, exportedTypes') \<Rightarrow>
          (Inr (),
           w\<lparr> w_exportedTypes := exportedTypes',
              w_written := w_written w @ [(sf_filePath output, output)] \<rparr>))"

subsection \<open>Predicates and example schemas used in the statements below\<close>

text \<open>The name is declared: \<^verbatim>\<open>types.find(t => t.name === name)\<close> finds an entry.\<close>

definition declared :: "MetadataType list option \<Rightarrow> string \<Rightarrow> bool" where
  "declared types n = (\<exists>t \<in> set (case types of None \<Rightarrow> [] | Some ts \<Rightarrow> ts). mt_name t = n)"

text \<open>
  The metadata type resolves, that is \<^verbatim>\<open>getArgsFromMetadata\<close> has a branch that
  returns for it: an enumerated type needs a first character to upper-case, any
  other type one of the kinds of the \<^verbatim>\<open>switch\<close>.
\<close>

definition resolves :: "'a MetadataType_scheme \<Rightarrow> bool" where
  "resolves t =
     (case mt_allowedValues t of
        Some vs \<Rightarrow> mt_name t \<noteq> []
      | None \<Rightarrow>
          mt_type t \<in> {None, Some ''string'', Some ''double'', Some ''int'', Some ''boolean''})"

text \<open>A reference counts as required when the flag is absent (\<^verbatim>\<open>m.required ?? true\<close>).\<close>

definition isRequired :: "MetricMetadata \<Rightarrow> bool" where
  "isRequired r = (case mm_required r of None \<Rightarrow> True | Some b \<Rightarrow> b)"

text \<open>A metadata type of the default kind, and a schema declaring the ten common names.\<close>

definition example_type :: "string \<Rightarrow> MetadataType" where
  "example_type n =
     \<lparr> mt_name = n, mt_description = ''d'', mt_allowedValues = None, mt_type = None \<rparr>"

definition example_types :: "MetadataType list" where
  "example_types = map example_type commonMetadata"

text \<open>An enumerated metadata type with a snake case name, and one of an unknown kind.\<close>

definition example_enum :: MetadataType where
  "example_enum =
     \<lparr> mt_name = ''foo_bar'', mt_description = ''d'', mt_allowedValues = Some [''a'', ''b''],
       mt_type = None \<rparr>"

definition example_float :: MetadataType where
  "example_float =
     \<lparr> mt_name = ''foo'', mt_description = ''d'', mt_allowedValues = None,
       mt_type = Some ''float'' \<rparr>"

definition example_metric :: "string \<Rightarrow> MetricMetadata list \<Rightarrow> Metric" where
  "example_metric n refs =
     \<lparr> m_name = n, m_description = ''x'', m_unit = None, m_passive = None,
       m_trackPerformance = None, m_metadata = Some refs \<rparr>"

text \<open>Two documents that both declare the type \<open>x\<close> and the metric \<open>y\<close>.\<close>

definition example_docA :: MetricDefinitionRoot where
  "example_docA =
     \<lparr> r_types = Some [\<lparr> mt_name = ''x'', mt_description = ''from A'',
                          mt_allowedValues = None, mt_type = None \<rparr>],
       r_metrics = [\<lparr> m_name = ''y'', m_description = ''from A'', m_unit = None,
                      m_passive = None, m_trackPerformance = None, m_metadata = None \<rparr>] \<rparr>"

definition example_docB :: MetricDefinitionRoot where
  "example_docB =
     \<lparr> r_types = Some [\<lparr> mt_name = ''x'', mt_description = ''from B'',
                          mt_allowedValues = None, mt_type = Some ''int'' \<rparr>],
       r_metrics = [\<lparr> m_name = ''y'', m_description = ''from B'', m_unit = Some ''Count'',
                      m_passive = None, m_trackPerformance = None, m_metadata = None \<rparr>] \<rparr>"

text \<open>
  The runtime record of a metric as a value, and the text of its entry in the table:
  \<open>name: { unit: '...', passive: ..., trackPerformance: ..., requiredMetadata: [...] }\<close>.
\<close>

record RuntimeRecord =
  rr_unit :: string
  rr_passive :: bool
  rr_trackPerformance :: bool
  rr_requiredMetadata :: "string list"

definition renderRecord :: "string \<Rightarrow> RuntimeRecord \<Rightarrow> string" where
  "renderRecord n r =
     n @ '': { unit: '' @ quoted (rr_unit r) @ '', passive: '' @ bool_str (rr_passive r)
       @ '', trackPerformance: '' @ bool_str (rr_trackPerformance r)
       @ '', requiredMetadata: ['' @ join '', '' (map quoted (rr_requiredMetadata r)) @ ''] }''"

text \<open>
  The record as the specification words it (section 4.4), for comparison with the
  code: the required-metadata list holds the name of every metadata reference of the
  metric whose \<open>required\<close> is true, explicit or defaulted.
\<close>

definition spec_runtimeRecord :: "Metric \<Rightarrow> RuntimeRecord" where
  "spec_runtimeRecord m =
     \<lparr> rr_unit = (case m_unit m of None \<Rightarrow> ''None'' | Some u \<Rightarrow> u),
       rr_passive = (case m_passive m of None \<Rightarrow> False | Some b \<Rightarrow> b),
       rr_trackPerformance = (case m_trackPerformance m of None \<Rightarrow> False | Some b \<Rightarrow> b),
       rr_requiredMetadata =
         map mm_type (filter isRequired (case m_metadata m of None \<Rightarrow> [] | Some rs \<Rightarrow> rs)) \<rparr>"

text \<open>
  A schema that declares the ten common names and some more types, and the state of
  the module and the file system before the first run.
\<close>

definition example_schema :: "MetadataType list \<Rightarrow> Metric list \<Rightarrow> MetricDefinitionRoot" where
  "example_schema extra ms = \<lparr> r_types = Some (example_types @ extra), r_metrics = ms \<rparr>"

definition emptyWorld :: World where
  "emptyWorld = \<lparr> w_exportedTypes = [], w_written = [] \<rparr>"

text \<open>An enumerated metadata type whose name is the empty string.\<close>

definition example_unnamed :: MetadataType where
  "example_unnamed =
     \<lparr> mt_name = [], mt_description = ''d'', mt_allowedValues = Some [''a''], mt_type = None \<rparr>"

text \<open>
  The names of the fields of the base type: the ten common names, then the six
  properties that \<^verbatim>\<open>generateMetricBase\<close> appends.
\<close>

definition fixedBaseFields :: "string list" where
  "fixedBaseFields =
     map ps_name [passive_prop, value_prop, trackPerformance, traceId, metricId, parentId]"

definition baseFieldNames :: "string list" where
  "baseFieldNames = commonMetadata @ fixedBaseFields"

text \<open>
  The names of the properties without a question mark that an interface declares
  itself, in order.
\<close>

definition requiredFields :: "InterfaceDeclarationStructure \<Rightarrow> string list" where
  "requiredFields iface =
     map ps_name (filter (\<lambda>p. ps_hasQuestionToken p \<noteq> Some True) (i_properties iface))"

text \<open>
  The static side as the specification words it, for comparison with the code: of
  these names, the ones that are not a field of the base type.
\<close>

definition spec_fieldsBeyondBase :: "InterfaceDeclarationStructure \<Rightarrow> string list" where
  "spec_fieldsBeyondBase iface = filter (\<lambda>n. n \<notin> set baseFieldNames) (requiredFields iface)"

section \<open>Properties\<close>

subsection \<open>Merging keeps the first entry of a name\<close>

lemma find_filter_weaker:
  "(\<And>y. P y \<Longrightarrow> Q y) \<Longrightarrow> find P (filter Q xs) = find P xs"
  by (induction xs) auto

lemma find_filter_excluded:
  "(\<And>y. P y \<Longrightarrow> \<not> Q y) \<Longrightarrow> find P (filter Q xs) = None"
  by (induction xs) auto

lemma find_append_first:
  "find P (xs @ ys) = (case find P xs of None \<Rightarrow> find P ys | Some x \<Rightarrow> Some x)"
  by (induction xs) auto

lemma uniqBy_filter_key:
  "filter (\<lambda>y. f y = k) (uniqBy f xs) = (case find (\<lambda>y. f y = k) xs of None \<Rightarrow> [] | Some x \<Rightarrow> [x])"
proof (induction f xs rule: uniqBy.induct)
  case (1 f)
  show ?case by simp
next
  case (2 f x xs)
  show ?case
  proof (cases "f x = k")
    case True
    have "find (\<lambda>y. f y = k) (filter (\<lambda>y. f y \<noteq> f x) xs) = None"
      using True by (intro find_filter_excluded) simp
    with 2 True show ?thesis by simp
  next
    case False
    have "find (\<lambda>y. f y = k) (filter (\<lambda>y. f y \<noteq> f x) xs) = find (\<lambda>y. f y = k) xs"
      using False by (intro find_filter_weaker) auto
    with 2 False show ?thesis by simp
  qed
qed

lemma set_uniqBy_subset: "set (uniqBy f xs) \<subseteq> set xs"
  by (induction f xs rule: uniqBy.induct) auto

lemma distinct_uniqBy: "distinct (map f (uniqBy f xs))"
proof (induction f xs rule: uniqBy.induct)
  case (1 f)
  show ?case by simp
next
  case (2 f x xs)
  have "f x \<notin> f ` set (uniqBy f (filter (\<lambda>y. f y \<noteq> f x) xs))"
    using set_uniqBy_subset [of f "filter (\<lambda>y. f y \<noteq> f x) xs"] by auto
  with 2 show ?case by simp
qed

lemma foldl_raw:
  "foldl (\<lambda>item input.
        \<lparr> r_types = (case r_types item of None \<Rightarrow> None | Some ts \<Rightarrow> Some (ts @ inputTypes input)),
          r_metrics = r_metrics item @ r_metrics input \<rparr>)
       \<lparr> r_types = Some ts0, r_metrics = ms0 \<rparr> docs
   = \<lparr> r_types = Some (ts0 @ concat (map inputTypes docs)),
       r_metrics = ms0 @ concat (map r_metrics docs) \<rparr>"
  by (induction docs arbitrary: ts0 ms0) simp_all

lemma rawDefinitions_eq:
  "rawDefinitions docs =
     \<lparr> r_types = Some (concat (map inputTypes docs)), r_metrics = concat (map r_metrics docs) \<rparr>"
  unfolding rawDefinitions_def by (simp add: foldl_raw)

lemma mergedInput_eq:
  "mergedInput docs =
     \<lparr> r_types = Some (uniqBy mt_name (concat (map inputTypes docs))),
       r_metrics = uniqBy m_name (concat (map r_metrics docs)) \<rparr>"
  by (simp add: mergedInput_def rawDefinitions_eq inputTypes_def)

text \<open>
  Claim C7. Merging an ordered sequence of documents deduplicates the types by name
  and the metrics by name and keeps the first occurrence in concatenation order: of
  the merged types exactly one has the name \<open>X\<close>, the first one of that name in the
  concatenation, and likewise for the metrics; the names of the merged schema are
  distinct. For documents \<open>A\<close> then \<open>B\<close>: when \<open>A\<close> declares \<open>X\<close>, the merged result
  holds the definition of \<open>A\<close> and no other entry of that name.
\<close>

theorem merge_first_wins:
  "(find (\<lambda>t. mt_name t = X) (concat (map inputTypes docs)) = Some a \<longrightarrow>
      filter (\<lambda>t. mt_name t = X) (inputTypes (mergedInput docs)) = [a])
   \<and> (find (\<lambda>m. m_name m = Y) (concat (map r_metrics docs)) = Some b \<longrightarrow>
      filter (\<lambda>m. m_name m = Y) (r_metrics (mergedInput docs)) = [b])
   \<and> distinct (map mt_name (inputTypes (mergedInput docs)))
   \<and> distinct (map m_name (r_metrics (mergedInput docs)))
   \<and> (find (\<lambda>t. mt_name t = X) (inputTypes A) = Some a \<longrightarrow>
      filter (\<lambda>t. mt_name t = X) (inputTypes (mergedInput [A, B])) = [a])
   \<and> (find (\<lambda>m. m_name m = Y) (r_metrics A) = Some b \<longrightarrow>
      filter (\<lambda>m. m_name m = Y) (r_metrics (mergedInput [A, B])) = [b])"
  by (simp add: mergedInput_eq inputTypes_def uniqBy_filter_key distinct_uniqBy find_append_first)

theorem merge_first_wins_witness:
  "find (\<lambda>t. mt_name t = ''x'') (inputTypes example_docA) = Some (hd (inputTypes example_docA))
   \<and> find (\<lambda>t. mt_name t = ''x'') (inputTypes example_docB) = Some (hd (inputTypes example_docB))
   \<and> hd (inputTypes example_docA) \<noteq> hd (inputTypes example_docB)
   \<and> filter (\<lambda>t. mt_name t = ''x'') (inputTypes (mergedInput [example_docA, example_docB]))
       = [hd (inputTypes example_docA)]
   \<and> find (\<lambda>m. m_name m = ''y'') (r_metrics example_docA) = Some (hd (r_metrics example_docA))
   \<and> filter (\<lambda>m. m_name m = ''y'') (r_metrics (mergedInput [example_docA, example_docB]))
       = [hd (r_metrics example_docA)]"
  using merge_first_wins [of "''x''" "[example_docA, example_docB]" "hd (inputTypes example_docA)"
      "''y''" "hd (r_metrics example_docA)" example_docA example_docB]
  by (simp add: example_docA_def example_docB_def inputTypes_def)

subsection \<open>Title case and the registry of union types\<close>

lemma toTitleCase_Cons: "toTitleCase (c # cs) = Inr (toUpperCase_char c @ cs)"
  by (simp add: toTitleCase_def toUpperCase_def)

lemma toTitleCase_Nil: "toTitleCase [] = Inl (TypeError undefinedToUpperCase)"
  by (simp add: toTitleCase_def)

lemma toTitleCase_Inl_iff: "(\<exists>e. toTitleCase s = Inl e) \<longleftrightarrow> s = []"
  by (cases s) (simp_all add: toTitleCase_Cons toTitleCase_Nil)

lemma getArgs_enum:
  assumes "mt_allowedValues m = Some vs" and "mt_name m = c # cs"
  shows "getArgsFromMetadata m st =
     (Inr (toUpperCase_char c @ cs),
      case find (\<lambda>tt. ta_name tt = toUpperCase_char c @ cs) st of
        None \<Rightarrow> st @ [\<lparr> ta_name = toUpperCase_char c @ cs, ta_isExported = True,
                       ta_typeParameters = [], ta_type = join '' | '' (map quoted vs) \<rparr>]
      | Some mm \<Rightarrow> st)"
  using assms by (simp add: getArgsFromMetadata_def toTitleCase_Cons split: option.splits)

lemma getArgs_enum_empty_name:
  assumes "mt_allowedValues m = Some vs" and "mt_name m = []"
  shows "getArgsFromMetadata m st = (Inl (TypeError undefinedToUpperCase), st)"
  using assms by (simp add: getArgsFromMetadata_def toTitleCase_Nil)

lemma getArgs_extends: "\<exists>ys. snd (getArgsFromMetadata m st) = st @ ys"
  by (simp add: getArgsFromMetadata_def split: option.splits sum.splits)

lemma getArgs_Inr_iff:
  "(\<exists>ty. fst (getArgsFromMetadata m st) = Inr ty) \<longleftrightarrow> resolves m"
  by (cases "mt_name m")
    (auto simp: getArgsFromMetadata_def resolves_def toTitleCase_Cons toTitleCase_Nil
      split: option.splits)

text \<open>
  Claim C5, as amended. For a metadata type with \<open>allowedValues\<close> and a non-empty name,
  the name of the union type is the name of the metadata type with its first character
  replaced by its upper-case form and the rest unchanged (title case, not PascalCase: an
  underscore stays, and the letter after it stays as it is). When no alias of that name
  is registered yet, the alias registered has as its type the allowed values, each
  between single quotes, in declaration order, joined by \<open>|\<close>; when one is registered,
  nothing is registered. The statement is about every first character whose upper-case
  form is a string of code units below 256.
\<close>

theorem union_type_name_and_members:
  assumes "mt_allowedValues m = Some vs" and "mt_name m = c # cs" and "upperCaseInRange c"
  shows "fst (getArgsFromMetadata m st) = Inr (toUpperCase_char c @ cs)
    \<and> (find (\<lambda>tt. ta_name tt = toUpperCase_char c @ cs) st = None \<longrightarrow>
         snd (getArgsFromMetadata m st) =
           st @ [\<lparr> ta_name = toUpperCase_char c @ cs, ta_isExported = True,
                   ta_typeParameters = [], ta_type = join '' | '' (map quoted vs) \<rparr>])
    \<and> (find (\<lambda>tt. ta_name tt = toUpperCase_char c @ cs) st \<noteq> None \<longrightarrow>
         snd (getArgsFromMetadata m st) = st)
    \<and> (97 \<le> (of_char c :: nat) \<and> (of_char c :: nat) \<le> 122 \<longrightarrow>
         toUpperCase_char c = [char_of ((of_char c :: nat) - 32)])
    \<and> ((of_char c :: nat) < 97 \<or> (122 < (of_char c :: nat) \<and> (of_char c :: nat) < 128) \<longrightarrow>
         toUpperCase_char c = [c])"
  using assms(1,2) by (auto simp: getArgs_enum toUpperCase_char_def)

theorem union_type_name_and_members_witness:
  "mt_allowedValues example_enum = Some [''a'', ''b''] \<and> mt_name example_enum = ''foo_bar''
   \<and> upperCaseInRange (CHR ''f'')
   \<and> getArgsFromMetadata example_enum [] =
       (Inr ''Foo_bar'',
        [\<lparr> ta_name = ''Foo_bar'', ta_isExported = True, ta_typeParameters = [],
           ta_type = [CHR 0x27] @ ''a'' @ [CHR 0x27] @ '' | '' @ [CHR 0x27] @ ''b'' @ [CHR 0x27] \<rparr>])
   \<and> upperCaseInRange (CHR 0xE9)
   \<and> fst (getArgsFromMetadata (example_enum \<lparr> mt_name := CHR 0xE9 # ''cho'' \<rparr>) [])
       = Inr (CHR 0xC9 # ''cho'')
   \<and> upperCaseInRange (CHR 0xDF)
   \<and> fst (getArgsFromMetadata (example_enum \<lparr> mt_name := CHR 0xDF # ''x'' \<rparr>) [])
       = Inr ''SSx''"
proof -
  have a: "mt_allowedValues example_enum = Some [''a'', ''b'']"
    and n: "mt_name example_enum = CHR ''f'' # ''oo_bar''"
    by (simp_all add: example_enum_def)
  have r: "upperCaseInRange (CHR ''f'')" "upperCaseInRange (CHR 0xE9)" "upperCaseInRange (CHR 0xDF)"
    by code_simp+
  have u: "toUpperCase_char (CHR ''f'') = ''F''" "toUpperCase_char (CHR 0xE9) = [CHR 0xC9]"
    "toUpperCase_char (CHR 0xDF) = ''SS''"
    by code_simp+
  have a2: "mt_allowedValues (example_enum \<lparr> mt_name := CHR 0xE9 # ''cho'' \<rparr>) = Some [''a'', ''b'']"
    and n2: "mt_name (example_enum \<lparr> mt_name := CHR 0xE9 # ''cho'' \<rparr>) = CHR 0xE9 # ''cho''"
    and a3: "mt_allowedValues (example_enum \<lparr> mt_name := CHR 0xDF # ''x'' \<rparr>) = Some [''a'', ''b'']"
    and n3: "mt_name (example_enum \<lparr> mt_name := CHR 0xDF # ''x'' \<rparr>) = CHR 0xDF # ''x''"
    by (simp_all add: example_enum_def)
  have 1: "getArgsFromMetadata example_enum [] =
       (Inr ''Foo_bar'',
        [\<lparr> ta_name = ''Foo_bar'', ta_isExported = True, ta_typeParameters = [],
           ta_type = [CHR 0x27] @ ''a'' @ [CHR 0x27] @ '' | '' @ [CHR 0x27] @ ''b'' @ [CHR 0x27] \<rparr>])"
    using union_type_name_and_members [OF a n r(1), of "[]"] u(1)
    by (cases "getArgsFromMetadata example_enum []") (simp add: quoted_def)
  have 2: "fst (getArgsFromMetadata (example_enum \<lparr> mt_name := CHR 0xE9 # ''cho'' \<rparr>) [])
       = Inr (CHR 0xC9 # ''cho'')"
    using union_type_name_and_members [OF a2 n2 r(2), of "[]"] u(2) by simp
  have 3: "fst (getArgsFromMetadata (example_enum \<lparr> mt_name := CHR 0xDF # ''x'' \<rparr>) [])
       = Inr ''SSx''"
    using union_type_name_and_members [OF a3 n3 r(3), of "[]"] u(3) by simp
  from a n r 1 2 3 show ?thesis
    by simp
qed

text \<open>
  The claim as stated fails for the name \<open>foo_bar\<close>: the union type is named
  \<open>Foo_bar\<close>, and PascalCase of the name is \<open>FooBar\<close>.
\<close>

theorem union_type_name_counterexample:
  "fst (getArgsFromMetadata example_enum []) = Inr ''Foo_bar''
   \<and> snakeCaseToPascalCase (mt_name example_enum) = Inr ''FooBar''
   \<and> fst (getArgsFromMetadata example_enum []) \<noteq> snakeCaseToPascalCase (mt_name example_enum)"
  by code_simp

subsection \<open>Mapping a callback that may throw\<close>

lemma mapM_extends:
  assumes "\<And>x s. \<exists>ys. snd (f x s) = s @ ys"
  shows "\<exists>ys. snd (mapM f xs s) = s @ ys"
proof (induction xs arbitrary: s)
  case Nil
  show ?case by simp
next
  case (Cons x xs)
  obtain r s1 where fx: "f x s = (r, s1)"
    by (cases "f x s")
  from assms [of x s] fx obtain ys where s1: "s1 = s @ ys"
    by auto
  show ?case
  proof (cases r)
    case (Inl e)
    with fx s1 show ?thesis by simp
  next
    case (Inr y)
    obtain r2 s2 where m: "mapM f xs s1 = (r2, s2)"
      by (cases "mapM f xs s1")
    from Cons [of s1] m obtain zs where "s2 = s1 @ zs"
      by auto
    with fx Inr m s1 show ?thesis
      by (cases r2) simp_all
  qed
qed

lemma mapM_Inl_source:
  assumes "fst (mapM f xs s) = Inl e"
  shows "\<exists>x \<in> set xs. \<exists>s1. fst (f x s1) = Inl e"
  using assms
proof (induction xs arbitrary: s)
  case Nil
  then show ?case by simp
next
  case (Cons x xs)
  obtain r s1 where fx: "f x s = (r, s1)"
    by (cases "f x s")
  show ?case
  proof (cases r)
    case (Inl e')
    with fx Cons.prems have "fst (f x s) = Inl e"
      by simp
    then show ?thesis by auto
  next
    case (Inr y)
    obtain r2 s2 where m: "mapM f xs s1 = (r2, s2)"
      by (cases "mapM f xs s1")
    with fx Inr Cons.prems have "fst (mapM f xs s1) = Inl e"
      by (cases r2) simp_all
    from Cons.IH [OF this] show ?thesis by auto
  qed
qed

lemma mapM_Inr_all:
  assumes "fst (mapM f xs s) = Inr ys"
  shows "list_all2 (\<lambda>x y. \<exists>s1. fst (f x s1) = Inr y) xs ys"
  using assms
proof (induction xs arbitrary: s ys)
  case Nil
  then show ?case by simp
next
  case (Cons x xs)
  obtain r s1 where fx: "f x s = (r, s1)"
    by (cases "f x s")
  show ?case
  proof (cases r)
    case (Inl e')
    with fx Cons.prems show ?thesis by simp
  next
    case (Inr y)
    obtain r2 s2 where m: "mapM f xs s1 = (r2, s2)"
      by (cases "mapM f xs s1")
    show ?thesis
    proof (cases r2)
      case (Inl e')
      with fx Inr m Cons.prems show ?thesis by simp
    next
      case r2: (Inr zs)
      with fx Inr m Cons.prems have ys: "ys = y # zs"
        by simp
      have "fst (mapM f xs s1) = Inr zs"
        using m r2 by simp
      from Cons.IH [OF this] have "list_all2 (\<lambda>x y. \<exists>s1. fst (f x s1) = Inr y) xs zs" .
      moreover have "\<exists>s1. fst (f x s1) = Inr y"
        using fx Inr by (intro exI [of _ s]) simp
      ultimately show ?thesis
        using ys by simp
    qed
  qed
qed

lemma mapM_Inl_iff:
  assumes ok: "\<And>x s. (\<exists>y. fst (f x s) = Inr y) \<longleftrightarrow> err x = None"
    and bad: "\<And>x s e. fst (f x s) = Inl e \<longleftrightarrow> err x = Some e"
  shows "fst (mapM f xs s) = Inl e \<longleftrightarrow>
    (\<exists>pre x post. xs = pre @ x # post \<and> (\<forall>p \<in> set pre. err p = None) \<and> err x = Some e)"
proof (induction xs arbitrary: s)
  case Nil
  show ?case by simp
next
  case (Cons x xs)
  obtain r s1 where fx: "f x s = (r, s1)"
    by (cases "f x s")
  show ?case
  proof (cases r)
    case (Inl e')
    with fx have e': "err x = Some e'"
      using bad [of x s e'] by simp
    have "(\<exists>pre x' post. x # xs = pre @ x' # post \<and> (\<forall>p \<in> set pre. err p = None) \<and> err x' = Some e)
      \<longleftrightarrow> e' = e"
    proof
      assume "\<exists>pre x' post. x # xs = pre @ x' # post \<and> (\<forall>p \<in> set pre. err p = None) \<and> err x' = Some e"
      then obtain pre x' post where sp: "x # xs = pre @ x' # post"
        and pre: "\<forall>p \<in> set pre. err p = None" and x': "err x' = Some e"
        by blast
      show "e' = e"
      proof (cases pre)
        case Nil
        with sp x' e' show ?thesis by simp
      next
        case (Cons p ps)
        with sp pre e' show ?thesis by simp
      qed
    next
      assume "e' = e"
      with e' have "x # xs = [] @ x # xs \<and> (\<forall>p \<in> set []. err p = None) \<and> err x = Some e"
        by simp
      then show "\<exists>pre x' post. x # xs = pre @ x' # post \<and> (\<forall>p \<in> set pre. err p = None) \<and> err x' = Some e"
        by blast
    qed
    with fx Inl show ?thesis by simp
  next
    case (Inr y)
    with fx have x: "err x = None"
      using ok [of x s] by auto
    obtain r2 s2 where m: "mapM f xs s1 = (r2, s2)"
      by (cases "mapM f xs s1")
    have l: "fst (mapM f (x # xs) s) = Inl e \<longleftrightarrow> fst (mapM f xs s1) = Inl e"
      using fx Inr m by (cases r2) simp_all
    have "(\<exists>pre x' post. x # xs = pre @ x' # post \<and> (\<forall>p \<in> set pre. err p = None) \<and> err x' = Some e)
      \<longleftrightarrow> (\<exists>pre x' post. xs = pre @ x' # post \<and> (\<forall>p \<in> set pre. err p = None) \<and> err x' = Some e)"
    proof
      assume "\<exists>pre x' post. x # xs = pre @ x' # post \<and> (\<forall>p \<in> set pre. err p = None) \<and> err x' = Some e"
      then obtain pre x' post where sp: "x # xs = pre @ x' # post"
        and pre: "\<forall>p \<in> set pre. err p = None" and x': "err x' = Some e"
        by blast
      show "\<exists>pre x' post. xs = pre @ x' # post \<and> (\<forall>p \<in> set pre. err p = None) \<and> err x' = Some e"
      proof (cases pre)
        case Nil
        with sp x' x show ?thesis by simp
      next
        case (Cons p ps)
        with sp pre have "xs = ps @ x' # post \<and> (\<forall>p \<in> set ps. err p = None)"
          by simp
        with x' show ?thesis by blast
      qed
    next
      assume "\<exists>pre x' post. xs = pre @ x' # post \<and> (\<forall>p \<in> set pre. err p = None) \<and> err x' = Some e"
      then obtain pre x' post where sp: "xs = pre @ x' # post"
        and pre: "\<forall>p \<in> set pre. err p = None" and x': "err x' = Some e"
        by blast
      from sp pre x have "x # xs = (x # pre) @ x' # post \<and> (\<forall>p \<in> set (x # pre). err p = None)"
        by simp
      with x' show "\<exists>pre x' post. x # xs = pre @ x' # post \<and> (\<forall>p \<in> set pre. err p = None) \<and> err x' = Some e"
        by blast
    qed
    with l Cons.IH [of s1] show ?thesis by simp
  qed
qed

lemma mapM_fails_if_member_fails:
  assumes "x \<in> set xs" and "\<And>s. \<exists>e. fst (f x s) = Inl e"
  shows "\<exists>e. fst (mapM f xs s) = Inl e"
  using assms(1)
proof (induction xs arbitrary: s)
  case Nil
  then show ?case by simp
next
  case (Cons a xs)
  obtain r s1 where fa: "f a s = (r, s1)"
    by (cases "f a s")
  show ?case
  proof (cases r)
    case (Inl e)
    with fa show ?thesis by simp
  next
    case (Inr y)
    have "a \<noteq> x"
      using assms(2) [of s] fa Inr by auto
    with Cons.prems have "x \<in> set xs"
      by simp
    from Cons.IH [OF this, of s1] obtain e where "fst (mapM f xs s1) = Inl e" ..
    with fa Inr show ?thesis
      by (cases "mapM f xs s1") simp
  qed
qed

lemma mapE_Inl_source:
  assumes "mapE f xs = Inl e"
  shows "\<exists>x \<in> set xs. f x = Inl e"
  using assms
  by (induction xs) (auto split: sum.splits)

lemma mapE_Inl_iff: "(\<exists>e. mapE f xs = Inl e) \<longleftrightarrow> (\<exists>x \<in> set xs. \<exists>e. f x = Inl e)"
  by (induction xs) (auto split: sum.splits)


lemma list_all2_left_member:
  "list_all2 P xs ys \<Longrightarrow> x \<in> set xs \<Longrightarrow> \<exists>y \<in> set ys. P x y"
  by (induction rule: list_all2_induct) auto

lemma list_all2_right_member:
  "list_all2 P xs ys \<Longrightarrow> y \<in> set ys \<Longrightarrow> \<exists>x \<in> set xs. P x y"
  by (induction rule: list_all2_induct) auto


lemma returned_value:
  "\<not> isl (fst p) \<Longrightarrow> \<exists>y s. p = (Inr y, s)"
  by (cases p; cases "fst p") auto

subsection \<open>Looking a type up and building a property\<close>

lemma getTypeOrThrow_undeclared:
  "\<not> declared types n \<Longrightarrow> getTypeOrThrow types n = Inl (Error (''did not find type: '' @ n))"
  by (auto simp: getTypeOrThrow_def declared_def find_None_iff split: option.splits)

lemma getTypeOrThrow_declared:
  "declared types n \<Longrightarrow> \<exists>t. getTypeOrThrow types n = Inr t"
  by (cases "find (\<lambda>t. mt_name t = n) (case types of None \<Rightarrow> [] | Some ts \<Rightarrow> ts)")
    (auto simp: getTypeOrThrow_def declared_def find_None_iff)

lemma getTypeOrThrow_Inr:
  assumes "getTypeOrThrow types n = Inr t"
  shows "mt_name t = n" and "declared types n"
    and "t \<in> set (case types of None \<Rightarrow> [] | Some ts \<Rightarrow> ts)"
proof -
  from assms have f: "find (\<lambda>t. mt_name t = n) (case types of None \<Rightarrow> [] | Some ts \<Rightarrow> ts) = Some t"
    by (simp add: getTypeOrThrow_def split: option.splits)
  then show "mt_name t = n"
    by (auto simp: find_Some_iff)
  from f show "declared types n"
    unfolding declared_def find_Some_iff by (metis nth_mem)
  from f show "t \<in> set (case types of None \<Rightarrow> [] | Some ts \<Rightarrow> ts)"
    unfolding find_Some_iff by (metis nth_mem)
qed

lemma getArgs_ignores_required:
  "getArgsFromMetadata \<lparr> mt_name = mt_name t, mt_description = mt_description t,
      mt_allowedValues = mt_allowedValues t, mt_type = mt_type t, required = b \<rparr> st
   = getArgsFromMetadata t st"
  by (simp add: getArgsFromMetadata_def cong: option.case_cong if_cong)

lemma getArgs_error_is_TypeError:
  "fst (getArgsFromMetadata m st) = Inl e \<Longrightarrow> \<exists>msg. e = TypeError msg"
  by (cases "mt_name m")
    (auto simp: getArgsFromMetadata_def toTitleCase_Nil toTitleCase_Cons
      split: option.splits if_splits)

lemma getArgs_error_any_state:
  "fst (getArgsFromMetadata m st) = Inl e \<longleftrightarrow> fst (getArgsFromMetadata m []) = Inl e"
  by (cases "mt_name m")
    (auto simp: getArgsFromMetadata_def toTitleCase_Nil toTitleCase_Cons
      split: option.splits if_splits)

lemma generateMetadataProperty_fst:
  "fst (generateMetadataProperty
          \<lparr> mt_name = mt_name t, mt_description = mt_description t,
            mt_allowedValues = mt_allowedValues t, mt_type = mt_type t, required = b \<rparr> st)
   = (case fst (getArgsFromMetadata t st) of
        Inl e \<Rightarrow> Inl e
      | Inr ty \<Rightarrow> Inr \<lparr> ps_isReadonly = True, ps_hasQuestionToken = Some (\<not> b),
                       ps_name = mt_name t, ps_type = ty, ps_docs = [mt_description t] \<rparr>)"
  by (cases "getArgsFromMetadata t st")
    (simp add: generateMetadataProperty_def getArgs_ignores_required split: sum.splits)

lemma generateMetadataProperty_snd:
  "snd (generateMetadataProperty
          \<lparr> mt_name = mt_name t, mt_description = mt_description t,
            mt_allowedValues = mt_allowedValues t, mt_type = mt_type t, required = b \<rparr> st)
   = snd (getArgsFromMetadata t st)"
  by (cases "getArgsFromMetadata t st")
    (simp add: generateMetadataProperty_def getArgs_ignores_required split: sum.splits)

lemma toProp_fst:
  "fst (toProp types n st) =
     (case getTypeOrThrow types n of
        Inl e \<Rightarrow> Inl e
      | Inr t \<Rightarrow>
          (case fst (getArgsFromMetadata t st) of
             Inl e \<Rightarrow> Inl e
           | Inr ty \<Rightarrow> Inr \<lparr> ps_isReadonly = True, ps_hasQuestionToken = Some True,
                            ps_name = n, ps_type = ty, ps_docs = [mt_description t] \<rparr>))"
  by (auto simp: toProp_def generateMetadataProperty_fst dest: getTypeOrThrow_Inr(1)
      split: sum.splits)

lemma toProp_extends: "\<exists>ys. snd (toProp types n st) = st @ ys"
  by (cases "getTypeOrThrow types n")
    (simp_all add: toProp_def generateMetadataProperty_snd getArgs_extends)

lemma metricProperty_fst:
  "fst (metricProperty types r st) =
     (case getTypeOrThrow types (mm_type r) of
        Inl e \<Rightarrow> Inl e
      | Inr t \<Rightarrow>
          (case fst (getArgsFromMetadata t st) of
             Inl e \<Rightarrow> Inl e
           | Inr ty \<Rightarrow> Inr \<lparr> ps_isReadonly = True, ps_hasQuestionToken = Some (\<not> isRequired r),
                            ps_name = mm_type r, ps_type = ty, ps_docs = [mt_description t] \<rparr>))"
  by (auto simp: metricProperty_def generateMetadataProperty_fst isRequired_def
      dest: getTypeOrThrow_Inr(1) split: sum.splits)

lemma metricProperty_extends: "\<exists>ys. snd (metricProperty types r st) = st @ ys"
  by (cases "getTypeOrThrow types (mm_type r)")
    (simp_all add: metricProperty_def generateMetadataProperty_snd getArgs_extends)

lemma metricProperty_Inr:
  assumes "fst (metricProperty types r st) = Inr p"
  shows "ps_name p = mm_type r" and "ps_hasQuestionToken p = Some (\<not> isRequired r)"
    and "declared types (mm_type r)"
  using assms
  by (auto simp: metricProperty_fst dest: getTypeOrThrow_Inr(2) split: sum.splits)

lemma metricProperty_undeclared:
  "\<not> declared types (mm_type r) \<Longrightarrow>
     fst (metricProperty types r st) = Inl (Error (''did not find type: '' @ mm_type r))"
  by (simp add: metricProperty_fst getTypeOrThrow_undeclared)

lemma toProp_undeclared:
  "\<not> declared types n \<Longrightarrow> fst (toProp types n st) = Inl (Error (''did not find type: '' @ n))"
  by (simp add: toProp_fst getTypeOrThrow_undeclared)

subsection \<open>The base interface, the interface of a metric, the file\<close>

lemma generateMetricBase_fst:
  "fst (generateMetricBase types st) =
     (case fst (mapM (toProp types) commonMetadata st) of
        Inl e \<Rightarrow> Inl e
      | Inr props \<Rightarrow>
          Inr \<lparr> i_name = baseName, i_isExported = True, i_extends = [], i_typeParameters = [],
                i_docs = [],
                i_properties =
                  props @ [passive_prop, value_prop, trackPerformance, traceId, metricId, parentId],
                i_methods = [] \<rparr>)"
  by (cases "mapM (toProp types) commonMetadata st")
    (simp add: generateMetricBase_def split: sum.splits)

lemma generateMetricBase_snd:
  "snd (generateMetricBase types st) = snd (mapM (toProp types) commonMetadata st)"
  by (cases "mapM (toProp types) commonMetadata st")
    (simp add: generateMetricBase_def split: sum.splits)

lemma generateMetricBase_extends: "\<exists>ys. snd (generateMetricBase types st) = st @ ys"
  unfolding generateMetricBase_snd by (rule mapM_extends) (rule toProp_extends)

lemma generateMetricInterface_fst:
  "fst (generateMetricInterface m types st) =
     (case metricToTypeName m of
        Inl e \<Rightarrow> Inl e
      | Inr name \<Rightarrow>
          (case fst (mapM (metricProperty types) (getMetricMetadata m) st) of
             Inl e \<Rightarrow> Inl e
           | Inr props \<Rightarrow>
               Inr \<lparr> i_name = name, i_isExported = True, i_extends = [baseName],
                     i_typeParameters = [], i_docs = [], i_properties = props,
                     i_methods = [] \<rparr>))"
  by (cases "mapM (metricProperty types) (getMetricMetadata m) st")
    (simp add: generateMetricInterface_def split: sum.splits)

lemma generateMetricInterface_extends: "\<exists>ys. snd (generateMetricInterface m types st) = st @ ys"
proof (cases "metricToTypeName m")
  case (Inl e)
  then show ?thesis
    by (simp add: generateMetricInterface_def)
next
  case (Inr name)
  have "snd (generateMetricInterface m types st)
      = snd (mapM (metricProperty types) (getMetricMetadata m) st)"
    using Inr
    by (cases "mapM (metricProperty types) (getMetricMetadata m) st")
      (simp add: generateMetricInterface_def split: sum.splits)
  then show ?thesis
    using mapM_extends [of "metricProperty types" "getMetricMetadata m" st, OF metricProperty_extends]
    by simp
qed

text \<open>The steps of generateFile, named.\<close>

lemma generateFile_Inr_steps:
  assumes "generateFile input dest st = (Inr file, st')"
  shows "\<exists>base st1 interfaces metricsMap metricName metadataType span recorder helper.
      generateMetricBase (r_types input) st = (Inr base, st1)
    \<and> mapM (\<lambda>m. generateMetricInterface m (r_types input)) (r_metrics input) st1
        = (Inr interfaces, st')
    \<and> sf_statements file =
        [InterfaceDecl base] @ map InterfaceDecl interfaces @ map TypeAliasDecl st'
        @ [InterfaceDecl runtimeMetricDefinition, InterfaceDecl metricsMap,
           TypeAliasDecl metricName, VariableStmt (generateDefinitions (r_metrics input)),
           TypeAliasDecl metadataType, InterfaceDecl span, InterfaceDecl recorder,
           ClassDecl helper]"
  using assms
  unfolding generateFile_def Let_def
  by (auto split: prod.splits sum.splits)

lemma generateFile_Inr:
  assumes "generateFile input dest st = (Inr file, st')"
  obtains base st1 interfaces where
    "generateMetricBase (r_types input) st = (Inr base, st1)"
    "mapM (\<lambda>m. generateMetricInterface m (r_types input)) (r_metrics input) st1
       = (Inr interfaces, st')"
    "InterfaceDecl ` set interfaces \<subseteq> set (sf_statements file)"
    "TypeAliasDecl ` set st' \<subseteq> set (sf_statements file)"
    "VariableStmt (generateDefinitions (r_metrics input)) \<in> set (sf_statements file)"
proof -
  from generateFile_Inr_steps [OF assms]
  obtain base st1 interfaces metricsMap metricName metadataType span recorder helper
    where b: "generateMetricBase (r_types input) st = (Inr base, st1)"
      and i: "mapM (\<lambda>m. generateMetricInterface m (r_types input)) (r_metrics input) st1
        = (Inr interfaces, st')"
      and s: "sf_statements file =
        [InterfaceDecl base] @ map InterfaceDecl interfaces @ map TypeAliasDecl st'
        @ [InterfaceDecl runtimeMetricDefinition, InterfaceDecl metricsMap,
           TypeAliasDecl metricName, VariableStmt (generateDefinitions (r_metrics input)),
           TypeAliasDecl metadataType, InterfaceDecl span, InterfaceDecl recorder,
           ClassDecl helper]"
    by blast
  have "InterfaceDecl ` set interfaces \<subseteq> set (sf_statements file)"
    and "TypeAliasDecl ` set st' \<subseteq> set (sf_statements file)"
    and "VariableStmt (generateDefinitions (r_metrics input)) \<in> set (sf_statements file)"
    unfolding s by auto
  with b i that show thesis
    by blast
qed

lemma generateFile_extends: "\<exists>ys. snd (generateFile input dest st) = st @ ys"
proof -
  obtain r1 st1 where b: "generateMetricBase (r_types input) st = (r1, st1)"
    by (cases "generateMetricBase (r_types input) st")
  from generateMetricBase_extends [of "r_types input" st] b obtain ys where st1: "st1 = st @ ys"
    by auto
  obtain r2 st2 where i: "mapM (\<lambda>m. generateMetricInterface m (r_types input)) (r_metrics input) st1 = (r2, st2)"
    by (cases "mapM (\<lambda>m. generateMetricInterface m (r_types input)) (r_metrics input) st1")
  have "\<exists>zs. snd (mapM (\<lambda>m. generateMetricInterface m (r_types input)) (r_metrics input) st1) = st1 @ zs"
    by (rule mapM_extends) (rule generateMetricInterface_extends)
  with i obtain zs where st2: "st2 = st1 @ zs"
    by auto
  have "snd (generateFile input dest st) = st1 \<or> snd (generateFile input dest st) = st2"
    using b i unfolding generateFile_def Let_def
    by (auto split: prod.splits sum.splits)
  with st1 st2 show ?thesis by auto
qed

subsection \<open>At most one union type of a name\<close>

lemma getArgs_distinct:
  assumes "distinct (map ta_name st)"
  shows "distinct (map ta_name (snd (getArgsFromMetadata m st)))"
proof (cases "mt_allowedValues m")
  case None
  with assms show ?thesis
    by (simp add: getArgsFromMetadata_def split: option.splits)
next
  case (Some vs)
  show ?thesis
  proof (cases "mt_name m")
    case Nil
    with Some assms show ?thesis
      by (simp add: getArgs_enum_empty_name)
  next
    case (Cons c cs)
    show ?thesis
    proof (cases "find (\<lambda>tt. ta_name tt = toUpperCase_char c @ cs) st")
      case None
      then have "toUpperCase_char c @ cs \<notin> ta_name ` set st"
        by (auto simp: find_None_iff)
      with None assms show ?thesis
        by (simp add: getArgs_enum [OF Some Cons])
    next
      case (Some mm)
      with assms show ?thesis
        by (simp add: getArgs_enum [OF \<open>mt_allowedValues m = Some vs\<close> Cons])
    qed
  qed
qed

lemma mapM_preserves:
  assumes "\<And>x s. I s \<Longrightarrow> I (snd (f x s))" and "I s"
  shows "I (snd (mapM f xs s))"
  using assms(2)
proof (induction xs arbitrary: s)
  case Nil
  then show ?case by simp
next
  case (Cons x xs)
  obtain r s1 where fx: "f x s = (r, s1)"
    by (cases "f x s")
  with assms(1) [OF Cons.prems, of x] have s1: "I s1"
    by simp
  show ?case
  proof (cases r)
    case (Inl e)
    with fx s1 show ?thesis by simp
  next
    case (Inr y)
    obtain r2 s2 where m: "mapM f xs s1 = (r2, s2)"
      by (cases "mapM f xs s1")
    with Cons.IH [OF s1] have "I s2"
      by simp
    with fx Inr m show ?thesis
      by (cases r2) simp_all
  qed
qed

lemma toProp_distinct:
  "distinct (map ta_name st) \<Longrightarrow> distinct (map ta_name (snd (toProp types n st)))"
  by (cases "getTypeOrThrow types n")
    (simp_all add: toProp_def generateMetadataProperty_snd getArgs_distinct)

lemma metricProperty_distinct:
  "distinct (map ta_name st) \<Longrightarrow> distinct (map ta_name (snd (metricProperty types r st)))"
  by (cases "getTypeOrThrow types (mm_type r)")
    (simp_all add: metricProperty_def generateMetadataProperty_snd getArgs_distinct)

lemma generateMetricInterface_snd:
  "snd (generateMetricInterface m types st) =
     (case metricToTypeName m of
        Inl e \<Rightarrow> st
      | Inr name \<Rightarrow> snd (mapM (metricProperty types) (getMetricMetadata m) st))"
  by (cases "mapM (metricProperty types) (getMetricMetadata m) st")
    (simp add: generateMetricInterface_def split: sum.splits)

lemma generateMetricInterface_distinct:
  assumes "distinct (map ta_name st)"
  shows "distinct (map ta_name (snd (generateMetricInterface m types st)))"
proof (cases "metricToTypeName m")
  case (Inl e)
  with assms show ?thesis
    by (simp add: generateMetricInterface_snd)
next
  case (Inr name)
  have "distinct (map ta_name (snd (mapM (metricProperty types) (getMetricMetadata m) st)))"
    using metricProperty_distinct assms
    by (rule mapM_preserves [where I = "\<lambda>s. distinct (map ta_name s)"])
  with Inr show ?thesis
    by (simp add: generateMetricInterface_snd)
qed

lemma generateFile_snd:
  "snd (generateFile input dest st) = snd (generateMetricBase (r_types input) st)
   \<or> snd (generateFile input dest st)
        = snd (mapM (\<lambda>m. generateMetricInterface m (r_types input)) (r_metrics input)
            (snd (generateMetricBase (r_types input) st)))"
  unfolding generateFile_def Let_def
  by (auto split: prod.splits sum.splits)

lemma generateFile_distinct:
  assumes "distinct (map ta_name st)"
  shows "distinct (map ta_name (snd (generateFile input dest st)))"
proof -
  have base: "distinct (map ta_name (snd (generateMetricBase (r_types input) st)))"
    unfolding generateMetricBase_snd
    using toProp_distinct assms
    by (rule mapM_preserves [where I = "\<lambda>s. distinct (map ta_name s)"])
  have "distinct (map ta_name
      (snd (mapM (\<lambda>m. generateMetricInterface m (r_types input)) (r_metrics input)
          (snd (generateMetricBase (r_types input) st)))))"
    using generateMetricInterface_distinct base
    by (rule mapM_preserves [where I = "\<lambda>s. distinct (map ta_name s)"])
  with base generateFile_snd [of input dest st] show ?thesis
    by auto
qed

text \<open>
  Claim C6. Resolving an enumerated metadata type and then an enumerated type of the
  same name again gives the same result as the first resolution and leaves the
  registry as the first resolution left it: no second alias is registered, and the name
  returned is the one returned first. A registry without two aliases of one name stays
  so, through one resolution and through a whole call of \<open>generateFile\<close>, so the file
  carries at most one union type of a name.
\<close>

theorem enum_resolution_idempotent:
  assumes "mt_allowedValues m \<noteq> None" and "mt_allowedValues m' \<noteq> None"
    and "mt_name m' = mt_name m"
  shows "getArgsFromMetadata m' (snd (getArgsFromMetadata m st)) = getArgsFromMetadata m st
    \<and> (distinct (map ta_name st) \<longrightarrow> distinct (map ta_name (snd (getArgsFromMetadata m st))))
    \<and> (distinct (map ta_name st) \<longrightarrow>
         distinct (map ta_name (snd (generateFile input dest st))))"
proof -
  have "getArgsFromMetadata m' (snd (getArgsFromMetadata m st)) = getArgsFromMetadata m st"
  proof (cases "mt_name m")
    case Nil
    with assms show ?thesis
      by (auto simp: getArgs_enum_empty_name)
  next
    case (Cons c cs)
    from assms obtain vs vs'
      where vs: "mt_allowedValues m = Some vs" "mt_allowedValues m' = Some vs'"
      by auto
    have n': "mt_name m' = c # cs"
      using assms Cons by simp
    show ?thesis
    proof (cases "find (\<lambda>tt. ta_name tt = toUpperCase_char c @ cs) st")
      case None
      then show ?thesis
        by (simp add: getArgs_enum [OF vs(1) Cons] getArgs_enum [OF vs(2) n'] find_append_first)
    next
      case (Some mm)
      then show ?thesis
        by (simp add: getArgs_enum [OF vs(1) Cons] getArgs_enum [OF vs(2) n'])
    qed
  qed
  with getArgs_distinct [of st m] generateFile_distinct [of st input dest] show ?thesis
    by blast
qed

theorem enum_resolution_idempotent_witness:
  "mt_allowedValues example_enum \<noteq> None
   \<and> getArgsFromMetadata example_enum [] \<noteq> (Inr ''Foo_bar'', [])
   \<and> getArgsFromMetadata example_enum (snd (getArgsFromMetadata example_enum []))
        = getArgsFromMetadata example_enum []
   \<and> length (snd (getArgsFromMetadata example_enum (snd (getArgsFromMetadata example_enum [])))) = 1
   \<and> distinct (map ta_name (snd (generateFile
        (example_schema [example_enum]
           [example_metric ''first_metric'' [\<lparr> mm_type = ''foo_bar'', mm_required = None \<rparr>],
            example_metric ''second_metric'' [\<lparr> mm_type = ''foo_bar'', mm_required = None \<rparr>]])
        ''out.ts'' [])))
   \<and> length (snd (generateFile
        (example_schema [example_enum]
           [example_metric ''first_metric'' [\<lparr> mm_type = ''foo_bar'', mm_required = None \<rparr>],
            example_metric ''second_metric'' [\<lparr> mm_type = ''foo_bar'', mm_required = None \<rparr>]])
        ''out.ts'' [])) = 1"
proof -
  let ?input = "example_schema [example_enum]
           [example_metric ''first_metric'' [\<lparr> mm_type = ''foo_bar'', mm_required = None \<rparr>],
            example_metric ''second_metric'' [\<lparr> mm_type = ''foo_bar'', mm_required = None \<rparr>]]"
  have a: "mt_allowedValues example_enum \<noteq> None"
    by (simp add: example_enum_def)
  have l: "length (snd (getArgsFromMetadata example_enum [])) = 1"
    by code_simp
  have l': "length (snd (generateFile ?input ''out.ts'' [])) = 1"
    by code_simp
  have d: "distinct (map ta_name ([] :: TypeAliasDeclarationStructure list))"
    by simp
  note inst = enum_resolution_idempotent [OF a a refl, of "[]" ?input "''out.ts''"]
  from inst
  have 1: "getArgsFromMetadata example_enum (snd (getArgsFromMetadata example_enum []))
      = getArgsFromMetadata example_enum []"
    by (rule conjunct1)
  from inst [THEN conjunct2, THEN conjunct2, THEN mp, OF d]
  have 2: "distinct (map ta_name (snd (generateFile ?input ''out.ts'' [])))" .
  from l have 3: "getArgsFromMetadata example_enum [] \<noteq> (Inr ''Foo_bar'', [])"
    by auto
  from l 1 have 4: "length (snd (getArgsFromMetadata example_enum
      (snd (getArgsFromMetadata example_enum [])))) = 1"
    by simp
  from a 3 1 4 2 l' show ?thesis
    by (intro conjI)
qed

subsection \<open>The registry only grows, and every file carries all of it\<close>

text \<open>
  Claim C10. The registry of union types is shared by all calls and only grows: after
  a call of \<open>generateFile\<close>, returning or throwing, it is the registry before the call
  followed by what the call registered. Every alias registered before a call that
  returns is among the statements of the file returned, whatever the input of that
  call. So the file is not a function of the input alone: one input with two
  registries gives two results.
\<close>

theorem registry_append_only:
  "(\<exists>ys. snd (generateFile input dest st) = st @ ys)
   \<and> (fst (generateFile input dest st) = Inr file \<longrightarrow>
        (\<forall>a \<in> set st. TypeAliasDecl a \<in> set (sf_statements file)))
   \<and> (\<exists>input' dest' st1 st2.
        fst (generateFile input' dest' st1) \<noteq> fst (generateFile input' dest' st2))"
proof -
  have emitted: "\<forall>a \<in> set s. TypeAliasDecl a \<in> set (sf_statements f)"
    if ok: "fst (generateFile i d s) = Inr f" for i d s f
  proof -
    obtain s' where g: "generateFile i d s = (Inr f, s')"
      using ok by (cases "generateFile i d s") auto
    from generateFile_extends [of i d s] g obtain ys where s': "s' = s @ ys"
      by auto
    from g have "TypeAliasDecl ` set s' \<subseteq> set (sf_statements f)"
      by (rule generateFile_Inr)
    with s' show ?thesis by auto
  qed
  have "fst (generateFile \<lparr> r_types = Some example_types, r_metrics = [] \<rparr> ''out.ts'' [])
      \<noteq> fst (generateFile \<lparr> r_types = Some example_types, r_metrics = [] \<rparr> ''out.ts''
              [\<lparr> ta_name = ''Foo_bar'', ta_isExported = True, ta_typeParameters = [],
                 ta_type = ''x'' \<rparr>])"
    by code_simp
  then have "\<exists>input' dest' st1 st2.
      fst (generateFile input' dest' st1) \<noteq> fst (generateFile input' dest' st2)"
    by blast
  with emitted generateFile_extends [of input dest st] show ?thesis
    by blast
qed

theorem registry_append_only_witness:
  "fst (generateFile \<lparr> r_types = Some (example_types @ [example_enum]),
                        r_metrics = [example_metric ''lambda_invoke''
                                       [\<lparr> mm_type = ''foo_bar'', mm_required = None \<rparr>]] \<rparr>
          ''a.ts'' []) \<noteq> Inl (Error [])
   \<and> snd (generateFile \<lparr> r_types = Some (example_types @ [example_enum]),
                        r_metrics = [example_metric ''lambda_invoke''
                                       [\<lparr> mm_type = ''foo_bar'', mm_required = None \<rparr>]] \<rparr>
          ''a.ts'' [])
     = [\<lparr> ta_name = ''Foo_bar'', ta_isExported = True, ta_typeParameters = [],
          ta_type = [CHR 0x27] @ ''a'' @ [CHR 0x27] @ '' | '' @ [CHR 0x27] @ ''b'' @ [CHR 0x27] \<rparr>]
   \<and> (\<exists>file2. fst (generateFile \<lparr> r_types = Some example_types, r_metrics = [] \<rparr> ''b.ts''
          [\<lparr> ta_name = ''Foo_bar'', ta_isExported = True, ta_typeParameters = [],
             ta_type = [CHR 0x27] @ ''a'' @ [CHR 0x27] @ '' | '' @ [CHR 0x27] @ ''b'' @ [CHR 0x27] \<rparr>])
        = Inr file2
      \<and> TypeAliasDecl \<lparr> ta_name = ''Foo_bar'', ta_isExported = True, ta_typeParameters = [],
             ta_type = [CHR 0x27] @ ''a'' @ [CHR 0x27] @ '' | '' @ [CHR 0x27] @ ''b'' @ [CHR 0x27] \<rparr>
          \<in> set (sf_statements file2))"
proof -
  let ?input1 = "\<lparr> r_types = Some (example_types @ [example_enum]),
                    r_metrics = [example_metric ''lambda_invoke''
                                   [\<lparr> mm_type = ''foo_bar'', mm_required = None \<rparr>]] \<rparr>"
  let ?input2 = "\<lparr> r_types = Some example_types, r_metrics = [] \<rparr>"
  let ?union = "\<lparr> ta_name = ''Foo_bar'', ta_isExported = True, ta_typeParameters = [],
          ta_type = [CHR 0x27] @ ''a'' @ [CHR 0x27] @ '' | '' @ [CHR 0x27] @ ''b'' @ [CHR 0x27] \<rparr>"
  have one: "snd (generateFile ?input1 ''a.ts'' []) = [?union]"
    by code_simp
  have ok1: "fst (generateFile ?input1 ''a.ts'' []) \<noteq> Inl (Error [])"
    by code_simp
  have "\<not> isl (fst (generateFile ?input2 ''b.ts'' [?union]))"
    by code_simp
  then obtain file2 where two: "fst (generateFile ?input2 ''b.ts'' [?union]) = Inr file2"
    by (cases "fst (generateFile ?input2 ''b.ts'' [?union])") auto
  from registry_append_only [of ?input2 "''b.ts''" "[?union]" file2] two
  have "TypeAliasDecl ?union \<in> set (sf_statements file2)"
    by simp
  with one ok1 two show ?thesis
    by blast
qed


subsection \<open>The runtime table and the interface of a metric agree\<close>

lemma quoted_inject: "quoted a = quoted b \<longleftrightarrow> a = b"
  by (simp add: quoted_def)

lemma required_names_of_metadataTypes:
  "{n. quoted n \<in> set (metadataTypes m)}
     = {mm_type r |r. r \<in> set (getMetricMetadata m) \<and> isRequired r}"
  by (auto simp: metadataTypes_def isRequired_def quoted_inject)

lemma required_properties_in_order:
  assumes "list_all2 (\<lambda>r p. ps_name p = mm_type r \<and> ps_hasQuestionToken p = Some (\<not> isRequired r))
     refs props"
  shows "map ps_name (filter (\<lambda>p. ps_hasQuestionToken p \<noteq> Some True) props)
     = map mm_type (filter isRequired refs)"
  using assms by (induction rule: list_all2_induct) auto

lemma required_names_of_properties:
  assumes "list_all2 (\<lambda>r p. ps_name p = mm_type r \<and> ps_hasQuestionToken p = Some (\<not> isRequired r))
     refs props"
  shows "{ps_name p |p. p \<in> set props \<and> ps_hasQuestionToken p \<noteq> Some True}
     = {mm_type r |r. r \<in> set refs \<and> isRequired r}"
proof -
  have "{ps_name p |p. p \<in> set props \<and> ps_hasQuestionToken p \<noteq> Some True}
      = set (map ps_name (filter (\<lambda>p. ps_hasQuestionToken p \<noteq> Some True) props))"
    by auto
  also have "\<dots> = set (map mm_type (filter isRequired refs))"
    by (simp only: required_properties_in_order [OF assms])
  also have "\<dots> = {mm_type r |r. r \<in> set refs \<and> isRequired r}"
    by auto
  finally show ?thesis .
qed

lemma getMetricMetadata_not_common:
  "r \<in> set (getMetricMetadata m) \<Longrightarrow> mm_type r \<notin> set commonMetadata"
  by (auto simp: getMetricMetadata_def split: option.splits)

lemma interface_of_metric:
  assumes "fst (generateMetricInterface m types st) = Inr iface"
  shows "metricToTypeName m = Inr (i_name iface)"
    and "i_extends iface = [baseName]"
    and "list_all2 (\<lambda>r p. ps_name p = mm_type r \<and> ps_hasQuestionToken p = Some (\<not> isRequired r))
           (getMetricMetadata m) (i_properties iface)"
proof -
  from assms obtain name props where n: "metricToTypeName m = Inr name"
    and p: "fst (mapM (metricProperty types) (getMetricMetadata m) st) = Inr props"
    and i: "iface = \<lparr> i_name = name, i_isExported = True, i_extends = [baseName],
                     i_typeParameters = [], i_docs = [], i_properties = props, i_methods = [] \<rparr>"
    by (auto simp: generateMetricInterface_fst split: sum.splits)
  from n i show "metricToTypeName m = Inr (i_name iface)" by simp
  from i show "i_extends iface = [baseName]" by simp
  have "list_all2 (\<lambda>r p. \<exists>s1. fst (metricProperty types r s1) = Inr p) (getMetricMetadata m) props"
    using p by (rule mapM_Inr_all)
  then have "list_all2 (\<lambda>r p. ps_name p = mm_type r \<and> ps_hasQuestionToken p = Some (\<not> isRequired r))
      (getMetricMetadata m) props"
    by (rule list_all2_mono) (auto dest: metricProperty_Inr)
  with i show "list_all2 (\<lambda>r p. ps_name p = mm_type r \<and> ps_hasQuestionToken p = Some (\<not> isRequired r))
      (getMetricMetadata m) (i_properties iface)"
    by simp
qed

lemma list_all2_map_eq:
  "list_all2 (\<lambda>x y. g y = f x) xs ys \<Longrightarrow> map g ys = map f xs"
  by (induction rule: list_all2_induct) simp_all

lemma toProp_Inr_name:
  "fst (toProp types n s) = Inr p \<Longrightarrow> ps_name p = n"
  by (auto simp: toProp_fst split: sum.splits)

lemma base_property_names:
  assumes "fst (generateMetricBase types st) = Inr base"
  shows "map ps_name (i_properties base) = baseFieldNames"
proof -
  from assms obtain props where p: "fst (mapM (toProp types) commonMetadata st) = Inr props"
    and b: "i_properties base
      = props @ [passive_prop, value_prop, trackPerformance, traceId, metricId, parentId]"
    by (auto simp: generateMetricBase_fst split: sum.splits)
  have "list_all2 (\<lambda>n p. \<exists>s1. fst (toProp types n s1) = Inr p) commonMetadata props"
    using p by (rule mapM_Inr_all)
  then have "list_all2 (\<lambda>n p. ps_name p = n) commonMetadata props"
    by (rule list_all2_mono) (auto dest: toProp_Inr_name)
  then have "map ps_name props = map (\<lambda>n. n) commonMetadata"
    by (rule list_all2_map_eq)
  with b show ?thesis
    by (simp add: baseFieldNames_def fixedBaseFields_def)
qed

lemma definitionsField_render:
  "definitionsField m =
     renderRecord (m_name m)
       \<lparr> rr_unit = (case m_unit m of None \<Rightarrow> ''None'' | Some u \<Rightarrow> u),
         rr_passive = (case m_passive m of None \<Rightarrow> False | Some b \<Rightarrow> b),
         rr_trackPerformance = (case m_trackPerformance m of None \<Rightarrow> False | Some b \<Rightarrow> b),
         rr_requiredMetadata = map mm_type (filter isRequired (getMetricMetadata m)) \<rparr>"
  by (simp add: definitionsField_def renderRecord_def metadataTypes_def isRequired_def [abs_def]
      comp_def)

lemma table_initializer:
  "map vd_initializer (vs_declarations (generateDefinitions ms))
     = [''{ '' @ join ('','' @ [CHR 0x0A]) (map definitionsField ms) @ '' }'']"
  by (simp add: generateDefinitions_def)

lemma generateFile_Inr_base:
  assumes "generateFile input dest st = (Inr out, st')"
  shows "\<exists>base. fst (generateMetricBase (r_types input) st) = Inr base
    \<and> InterfaceDecl base \<in> set (sf_statements out)"
proof -
  from generateFile_Inr_steps [OF assms]
  obtain base st1 interfaces metricsMap metricName metadataType span recorder helper
    where b: "generateMetricBase (r_types input) st = (Inr base, st1)"
      and s: "sf_statements out =
        [InterfaceDecl base] @ map InterfaceDecl interfaces @ map TypeAliasDecl st'
        @ [InterfaceDecl runtimeMetricDefinition, InterfaceDecl metricsMap,
           TypeAliasDecl metricName, VariableStmt (generateDefinitions (r_metrics input)),
           TypeAliasDecl metadataType, InterfaceDecl span, InterfaceDecl recorder,
           ClassDecl helper]"
    by blast
  have "InterfaceDecl base \<in> set (sf_statements out)"
    unfolding s by simp
  with b show ?thesis
    by simp
qed

text \<open>
  Claim C1, as amended. When \<open>generateFile\<close> returns a file, the file holds the base
  interface, the runtime table and, for every metric \<open>m\<close> of the schema, the interface
  generated for \<open>m\<close>. The table is the rows of the metrics joined, and the row of \<open>m\<close> is
  the text of a record whose \<open>requiredMetadata\<close> list is, name by name and in order, the
  list of the properties without a question mark that the interface of \<open>m\<close> declares
  itself; so the two sets of names are equal. None of these properties has one of the ten
  common names. They are beyond the base type when no reference of the metric is named
  like one of the six fixed fields of the base type; a reference with such a name is
  declared by the interface and listed in the row just the same.
\<close>

theorem table_matches_interface:
  assumes "generateFile input dest st = (Inr file, st')" and "m \<in> set (r_metrics input)"
  shows "\<exists>base iface st1.
      fst (generateMetricBase (r_types input) st) = Inr base
    \<and> InterfaceDecl base \<in> set (sf_statements file)
    \<and> map ps_name (i_properties base) = baseFieldNames
    \<and> fst (generateMetricInterface m (r_types input) st1) = Inr iface
    \<and> InterfaceDecl iface \<in> set (sf_statements file)
    \<and> metricToTypeName m = Inr (i_name iface)
    \<and> i_extends iface = [baseName]
    \<and> VariableStmt (generateDefinitions (r_metrics input)) \<in> set (sf_statements file)
    \<and> map vd_initializer (vs_declarations (generateDefinitions (r_metrics input)))
        = [''{ '' @ join ('','' @ [CHR 0x0A]) (map definitionsField (r_metrics input)) @ '' }'']
    \<and> definitionsField m =
        renderRecord (m_name m)
          \<lparr> rr_unit = (case m_unit m of None \<Rightarrow> ''None'' | Some u \<Rightarrow> u),
            rr_passive = (case m_passive m of None \<Rightarrow> False | Some b \<Rightarrow> b),
            rr_trackPerformance = (case m_trackPerformance m of None \<Rightarrow> False | Some b \<Rightarrow> b),
            rr_requiredMetadata = requiredFields iface \<rparr>
    \<and> set (requiredFields iface)
        = {ps_name p |p. p \<in> set (i_properties iface) \<and> ps_hasQuestionToken p \<noteq> Some True}
    \<and> (\<forall>p \<in> set (i_properties iface). ps_name p \<notin> set commonMetadata)
    \<and> ((\<forall>r \<in> set (getMetricMetadata m). mm_type r \<notin> set fixedBaseFields) \<longrightarrow>
         (\<forall>p \<in> set (i_properties iface). ps_name p \<notin> set baseFieldNames))"
proof -
  from generateFile_Inr_base [OF assms(1)] obtain base
    where base: "fst (generateMetricBase (r_types input) st) = Inr base"
      and bdecl: "InterfaceDecl base \<in> set (sf_statements file)"
    by blast
  note bnames = base_property_names [OF base]
  from assms(1) obtain base' st1 interfaces
    where ifs: "mapM (\<lambda>m. generateMetricInterface m (r_types input)) (r_metrics input) st1
        = (Inr interfaces, st')"
      and decl: "InterfaceDecl ` set interfaces \<subseteq> set (sf_statements file)"
      and tab: "VariableStmt (generateDefinitions (r_metrics input)) \<in> set (sf_statements file)"
    by (rule generateFile_Inr)
  from ifs have "list_all2 (\<lambda>m iface. \<exists>s1. fst (generateMetricInterface m (r_types input) s1) = Inr iface)
      (r_metrics input) interfaces"
    by (intro mapM_Inr_all [where s = st1]) simp
  from list_all2_left_member [OF this assms(2)]
  obtain iface s1 where mem: "iface \<in> set interfaces"
    and gen: "fst (generateMetricInterface m (r_types input) s1) = Inr iface"
    by blast
  from mem decl have idecl: "InterfaceDecl iface \<in> set (sf_statements file)"
    by auto
  note facts = interface_of_metric [OF gen]
  have fields: "requiredFields iface = map mm_type (filter isRequired (getMetricMetadata m))"
    unfolding requiredFields_def by (rule required_properties_in_order [OF facts(3)])
  have row: "definitionsField m =
        renderRecord (m_name m)
          \<lparr> rr_unit = (case m_unit m of None \<Rightarrow> ''None'' | Some u \<Rightarrow> u),
            rr_passive = (case m_passive m of None \<Rightarrow> False | Some b \<Rightarrow> b),
            rr_trackPerformance = (case m_trackPerformance m of None \<Rightarrow> False | Some b \<Rightarrow> b),
            rr_requiredMetadata = requiredFields iface \<rparr>"
    unfolding fields by (rule definitionsField_render)
  have names: "set (requiredFields iface)
      = {ps_name p |p. p \<in> set (i_properties iface) \<and> ps_hasQuestionToken p \<noteq> Some True}"
    unfolding requiredFields_def by auto
  have own: "\<exists>r \<in> set (getMetricMetadata m). ps_name p = mm_type r"
    if "p \<in> set (i_properties iface)" for p
    using list_all2_right_member [OF facts(3) that] by blast
  have common: "\<forall>p \<in> set (i_properties iface). ps_name p \<notin> set commonMetadata"
  proof
    fix p
    assume "p \<in> set (i_properties iface)"
    from own [OF this] obtain r where "r \<in> set (getMetricMetadata m)" and "ps_name p = mm_type r"
      by blast
    then show "ps_name p \<notin> set commonMetadata"
      by (simp add: getMetricMetadata_not_common)
  qed
  have beyond: "\<forall>p \<in> set (i_properties iface). ps_name p \<notin> set baseFieldNames"
    if "\<forall>r \<in> set (getMetricMetadata m). mm_type r \<notin> set fixedBaseFields"
  proof
    fix p
    assume "p \<in> set (i_properties iface)"
    from own [OF this] obtain r where r: "r \<in> set (getMetricMetadata m)" "ps_name p = mm_type r"
      by blast
    with that getMetricMetadata_not_common [OF r(1)]
    show "ps_name p \<notin> set baseFieldNames"
      by (simp add: baseFieldNames_def)
  qed
  from beyond
  have beyond': "(\<forall>r \<in> set (getMetricMetadata m). mm_type r \<notin> set fixedBaseFields) \<longrightarrow>
      (\<forall>p \<in> set (i_properties iface). ps_name p \<notin> set baseFieldNames)"
    by (rule impI)
  from base bdecl bnames gen idecl facts(1,2) tab table_initializer [of "r_metrics input"]
    row names common beyond'
  show ?thesis
    by (intro exI conjI)
qed

theorem table_matches_interface_witness:
  "\<exists>file st' iface.
      generateFile
        (example_schema [example_enum, example_type ''opt'']
          [example_metric ''lambda_invoke''
            [\<lparr> mm_type = ''result'', mm_required = Some True \<rparr>,
             \<lparr> mm_type = ''foo_bar'', mm_required = None \<rparr>,
             \<lparr> mm_type = ''opt'', mm_required = Some False \<rparr>]]) ''out.ts'' []
        = (Inr file, st')
    \<and> InterfaceDecl iface \<in> set (sf_statements file)
    \<and> i_name iface = ''LambdaInvoke''
    \<and> requiredFields iface = [''foo_bar'']
    \<and> definitionsField (example_metric ''lambda_invoke''
            [\<lparr> mm_type = ''result'', mm_required = Some True \<rparr>,
             \<lparr> mm_type = ''foo_bar'', mm_required = None \<rparr>,
             \<lparr> mm_type = ''opt'', mm_required = Some False \<rparr>])
        = renderRecord ''lambda_invoke''
            \<lparr> rr_unit = ''None'', rr_passive = False, rr_trackPerformance = False,
              rr_requiredMetadata = [''foo_bar''] \<rparr>
    \<and> (\<forall>p \<in> set (i_properties iface). ps_name p \<notin> set baseFieldNames)"
proof -
  let ?m = "example_metric ''lambda_invoke''
            [\<lparr> mm_type = ''result'', mm_required = Some True \<rparr>,
             \<lparr> mm_type = ''foo_bar'', mm_required = None \<rparr>,
             \<lparr> mm_type = ''opt'', mm_required = Some False \<rparr>]"
  let ?input = "example_schema [example_enum, example_type ''opt''] [?m]"
  have "\<not> isl (fst (generateFile ?input ''out.ts'' []))"
    by code_simp
  then have "\<exists>y s. generateFile ?input ''out.ts'' [] = (Inr y, s)"
    by (rule returned_value)
  then obtain out st' where g: "generateFile ?input ''out.ts'' [] = (Inr out, st')"
    by (elim exE)
  have mem: "?m \<in> set (r_metrics ?input)"
    by (simp add: example_schema_def)
  have tn: "metricToTypeName ?m = Inr ''LambdaInvoke''"
    by code_simp
  have nofixed: "\<forall>r \<in> set (getMetricMetadata ?m). mm_type r \<notin> set fixedBaseFields"
    by code_simp
  have rec: "renderRecord (m_name ?m)
          \<lparr> rr_unit = (case m_unit ?m of None \<Rightarrow> ''None'' | Some u \<Rightarrow> u),
            rr_passive = (case m_passive ?m of None \<Rightarrow> False | Some b \<Rightarrow> b),
            rr_trackPerformance = (case m_trackPerformance ?m of None \<Rightarrow> False | Some b \<Rightarrow> b),
            rr_requiredMetadata = [''foo_bar''] \<rparr>
      = renderRecord ''lambda_invoke''
            \<lparr> rr_unit = ''None'', rr_passive = False, rr_trackPerformance = False,
              rr_requiredMetadata = [''foo_bar''] \<rparr>"
    by code_simp
  have req: "map mm_type (filter isRequired (getMetricMetadata ?m)) = [''foo_bar'']"
    by code_simp
  from table_matches_interface [OF g mem] obtain base iface st1
    where gen: "fst (generateMetricInterface ?m (r_types ?input) st1) = Inr iface"
      and decl: "InterfaceDecl iface \<in> set (sf_statements out)"
      and name: "metricToTypeName ?m = Inr (i_name iface)"
      and row: "definitionsField ?m =
        renderRecord (m_name ?m)
          \<lparr> rr_unit = (case m_unit ?m of None \<Rightarrow> ''None'' | Some u \<Rightarrow> u),
            rr_passive = (case m_passive ?m of None \<Rightarrow> False | Some b \<Rightarrow> b),
            rr_trackPerformance = (case m_trackPerformance ?m of None \<Rightarrow> False | Some b \<Rightarrow> b),
            rr_requiredMetadata = requiredFields iface \<rparr>"
      and beyond: "(\<forall>r \<in> set (getMetricMetadata ?m). mm_type r \<notin> set fixedBaseFields) \<longrightarrow>
         (\<forall>p \<in> set (i_properties iface). ps_name p \<notin> set baseFieldNames)"
    by (elim exE conjE)
  have "requiredFields iface = map mm_type (filter isRequired (getMetricMetadata ?m))"
    unfolding requiredFields_def
    by (rule required_properties_in_order [OF interface_of_metric(3) [OF gen]])
  then have fields: "requiredFields iface = [''foo_bar'']"
    by (simp only: req)
  from row have row': "definitionsField ?m
      = renderRecord ''lambda_invoke''
            \<lparr> rr_unit = ''None'', rr_passive = False, rr_trackPerformance = False,
              rr_requiredMetadata = [''foo_bar''] \<rparr>"
    by (simp only: fields rec)
  from name have iname: "i_name iface = ''LambdaInvoke''"
    by (simp only: tn sum.inject)
  from beyond nofixed
  have b: "\<forall>p \<in> set (i_properties iface). ps_name p \<notin> set baseFieldNames"
    by (rule mp)
  from g decl iname fields row' b show ?thesis
    by (intro exI conjI)
qed

text \<open>
  The claim as stated fails for a metric that references a metadata type named like a
  fixed field of the base type. Here the type \<open>traceId\<close> is declared and referenced: the
  run returns a file, the row of the metric lists \<open>traceId\<close> and the interface declares
  it without a question mark, but \<open>traceId\<close> is a field of the base type, so of the
  non-optional fields of the interface none is beyond the base type.
\<close>

theorem table_lists_base_field_counterexample:
  "\<not> isl (fst (generateFile
        (example_schema [example_type ''traceId'']
          [example_metric ''lambda_invoke'' [\<lparr> mm_type = ''traceId'', mm_required = None \<rparr>]])
        ''out.ts'' []))
   \<and> definitionsField
        (example_metric ''lambda_invoke'' [\<lparr> mm_type = ''traceId'', mm_required = None \<rparr>])
       = renderRecord ''lambda_invoke''
           \<lparr> rr_unit = ''None'', rr_passive = False, rr_trackPerformance = False,
             rr_requiredMetadata = [''traceId''] \<rparr>
   \<and> ''traceId'' \<in> set baseFieldNames
   \<and> (case fst (generateMetricInterface
          (example_metric ''lambda_invoke'' [\<lparr> mm_type = ''traceId'', mm_required = None \<rparr>])
          (Some (example_types @ [example_type ''traceId''])) []) of
        Inl e \<Rightarrow> None
      | Inr iface \<Rightarrow> Some (requiredFields iface, spec_fieldsBeyondBase iface))
       = Some ([''traceId''], [])"
  by code_simp

subsection \<open>The kinds of a metadata type without allowed values\<close>

lemma includes_str_self: "includes_str t t"
  by (cases t) simp_all

lemma includes_str_append: "includes_str (xs @ t) t"
  by (induction xs) (simp_all add: includes_str_self)

lemma includes_str_middle: "includes_str (xs @ t @ ys) t"
proof (induction xs)
  case Nil
  show ?case by (cases t; cases ys) simp_all
next
  case (Cons x xs)
  then show ?case by simp
qed

text \<open>
  Claim C4, as amended. For a metadata type without \<open>allowedValues\<close>, resolution maps
  the kind \<open>string\<close> or no kind to \<open>string\<close>, \<open>double\<close> and \<open>int\<close> to \<open>number\<close>,
  \<open>boolean\<close> to \<open>boolean\<close>, and leaves the registry as it is. Any other kind fails with
  the TypeError \<open>unknown type <kind> in metadata <name>\<close>: the message names the kind and
  the metadata type. The metric is not an argument of the resolution and is not named.
\<close>

theorem primitive_kind_resolution:
  assumes "mt_allowedValues m = None"
  shows "(mt_type m = None \<or> mt_type m = Some ''string'' \<longrightarrow>
            getArgsFromMetadata m st = (Inr ''string'', st))
    \<and> (mt_type m = Some ''double'' \<or> mt_type m = Some ''int'' \<longrightarrow>
            getArgsFromMetadata m st = (Inr ''number'', st))
    \<and> (mt_type m = Some ''boolean'' \<longrightarrow> getArgsFromMetadata m st = (Inr ''boolean'', st))
    \<and> (mt_type m = Some k \<and> k \<notin> {''string'', ''double'', ''int'', ''boolean''} \<longrightarrow>
            getArgsFromMetadata m st
              = (Inl (TypeError (''unknown type '' @ k @ '' in metadata '' @ mt_name m)), st)
            \<and> includes_str (''unknown type '' @ k @ '' in metadata '' @ mt_name m) k
            \<and> includes_str (''unknown type '' @ k @ '' in metadata '' @ mt_name m) (mt_name m))"
proof -
  have "includes_str (''unknown type '' @ k @ '' in metadata '' @ mt_name m) k"
    by (rule includes_str_middle)
  moreover have "includes_str ((''unknown type '' @ k @ '' in metadata '') @ mt_name m) (mt_name m)"
    by (rule includes_str_append)
  ultimately show ?thesis
    using assms by (simp add: getArgsFromMetadata_def)
qed

theorem primitive_kind_resolution_witness:
  "mt_allowedValues example_float = None
   \<and> mt_type example_float = Some ''float''
   \<and> ''float'' \<notin> {''string'', ''double'', ''int'', ''boolean''}
   \<and> getArgsFromMetadata example_float [] = (Inl (TypeError ''unknown type float in metadata foo''), [])
   \<and> mt_allowedValues (example_type ''duration'') = None
   \<and> mt_type (example_type ''duration'') = None
   \<and> getArgsFromMetadata (example_type ''duration'') [] = (Inr ''string'', [])"
proof -
  have a: "mt_allowedValues example_float = None" and b: "mt_allowedValues (example_type ''duration'') = None"
    by (simp_all add: example_float_def example_type_def)
  have k: "mt_type example_float = Some ''float''" and n: "mt_name example_float = ''foo''"
    and k': "mt_type (example_type ''duration'') = None"
    by (simp_all add: example_float_def example_type_def)
  have nk: "''float'' \<notin> {''string'', ''double'', ''int'', ''boolean''}"
    by simp
  from primitive_kind_resolution [OF a, where k = "''float''" and st = "[]"] k n nk
  have 1: "getArgsFromMetadata example_float [] = (Inl (TypeError ''unknown type float in metadata foo''), [])"
    by simp
  from primitive_kind_resolution [OF b, where k = "''float''" and st = "[]"] k'
  have 2: "getArgsFromMetadata (example_type ''duration'') [] = (Inr ''string'', [])"
    by simp
  from a k nk 1 b k' 2 show ?thesis
    by (intro conjI)
qed

text \<open>
  The claim as stated fails: for the metric \<open>lambda_invoke\<close> with a reference to the type
  \<open>foo\<close> of kind \<open>float\<close>, generation throws the TypeError below, in which the name of the
  metric does not occur.
\<close>

theorem unknown_kind_error_counterexample:
  "fst (generateFile
          \<lparr> r_types = Some (example_types @ [example_float]),
            r_metrics = [example_metric ''lambda_invoke''
                           [\<lparr> mm_type = ''foo'', mm_required = None \<rparr>]] \<rparr> ''out.ts'' [])
     = Inl (TypeError ''unknown type float in metadata foo'')
   \<and> \<not> includes_str ''unknown type float in metadata foo'' ''lambda_invoke''"
  by code_simp

subsection \<open>The entry of a metric in the runtime table\<close>

lemma required_references_flat:
  "filter (\<lambda>r. case mm_required r of None \<Rightarrow> True | Some b \<Rightarrow> b) (getMetricMetadata m)
     = filter (\<lambda>r. mm_type r \<notin> set commonMetadata \<and> mm_required r \<noteq> Some False)
         (case m_metadata m of None \<Rightarrow> [] | Some rs \<Rightarrow> rs)"
proof -
  have "(case mm_required r of None \<Rightarrow> True | Some b \<Rightarrow> b) \<longleftrightarrow> mm_required r \<noteq> Some False" for r
    by (cases "mm_required r") auto
  then show ?thesis
    by (cases "m_metadata m") (auto simp: getMetricMetadata_def intro: filter_cong)
qed

text \<open>
  Claim C2, as amended. The entry of a metric in the runtime table is the text of the
  record with: the declared unit, or \<open>None\<close> when absent; the declared \<open>passive\<close> flag,
  or false when absent; the declared \<open>trackPerformance\<close> flag, or false when absent; and
  as \<open>requiredMetadata\<close> the names, in order, of the metadata references of the metric
  that are not one of the ten common names and whose \<open>required\<close> is not false. The
  table holds one entry per metric, in order.
\<close>

theorem runtime_record_of_metric:
  "definitionsField m =
     renderRecord (m_name m)
       \<lparr> rr_unit = (case m_unit m of None \<Rightarrow> ''None'' | Some u \<Rightarrow> u),
         rr_passive = (m_passive m = Some True),
         rr_trackPerformance = (m_trackPerformance m = Some True),
         rr_requiredMetadata =
           map mm_type
             (filter (\<lambda>r. mm_type r \<notin> set commonMetadata \<and> mm_required r \<noteq> Some False)
                (case m_metadata m of None \<Rightarrow> [] | Some rs \<Rightarrow> rs)) \<rparr>
   \<and> map vd_initializer (vs_declarations (generateDefinitions ms))
       = [''{ '' @ join ('','' @ [CHR 0x0A]) (map definitionsField ms) @ '' }'']"
proof -
  have p: "(case m_passive m of None \<Rightarrow> False | Some b \<Rightarrow> b) = (m_passive m = Some True)"
    by (cases "m_passive m") auto
  have t: "(case m_trackPerformance m of None \<Rightarrow> False | Some b \<Rightarrow> b) = (m_trackPerformance m = Some True)"
    by (cases "m_trackPerformance m") auto
  have "metadataTypes m
      = map quoted (map mm_type
          (filter (\<lambda>r. mm_type r \<notin> set commonMetadata \<and> mm_required r \<noteq> Some False)
             (case m_metadata m of None \<Rightarrow> [] | Some rs \<Rightarrow> rs)))"
    unfolding metadataTypes_def required_references_flat by simp
  then show ?thesis
    by (simp add: definitionsField_def renderRecord_def generateDefinitions_def p t)
qed

theorem runtime_record_of_metric_witness:
  "definitionsField (example_metric ''lambda_invoke''
       [\<lparr> mm_type = ''result'', mm_required = Some True \<rparr>,
        \<lparr> mm_type = ''foo_bar'', mm_required = None \<rparr>,
        \<lparr> mm_type = ''opt'', mm_required = Some False \<rparr>])
     = renderRecord ''lambda_invoke''
         \<lparr> rr_unit = ''None'', rr_passive = False, rr_trackPerformance = False,
           rr_requiredMetadata = [''foo_bar''] \<rparr>"
proof -
  let ?m = "example_metric ''lambda_invoke''
       [\<lparr> mm_type = ''result'', mm_required = Some True \<rparr>,
        \<lparr> mm_type = ''foo_bar'', mm_required = None \<rparr>,
        \<lparr> mm_type = ''opt'', mm_required = Some False \<rparr>]"
  have "renderRecord (m_name ?m)
       \<lparr> rr_unit = (case m_unit ?m of None \<Rightarrow> ''None'' | Some u \<Rightarrow> u),
         rr_passive = (m_passive ?m = Some True),
         rr_trackPerformance = (m_trackPerformance ?m = Some True),
         rr_requiredMetadata =
           map mm_type
             (filter (\<lambda>r. mm_type r \<notin> set commonMetadata \<and> mm_required r \<noteq> Some False)
                (case m_metadata ?m of None \<Rightarrow> [] | Some rs \<Rightarrow> rs)) \<rparr>
     = renderRecord ''lambda_invoke''
         \<lparr> rr_unit = ''None'', rr_passive = False, rr_trackPerformance = False,
           rr_requiredMetadata = [''foo_bar''] \<rparr>"
    by code_simp
  with runtime_record_of_metric [of ?m "[]"] show ?thesis
    by (simp only:)
qed

text \<open>
  The claim as stated fails: a reference to the common name \<open>result\<close> with
  \<open>required: true\<close> is a metadata reference whose \<open>required\<close> is true, and its name is
  not in the list emitted.
\<close>

theorem runtime_record_counterexample:
  "rr_requiredMetadata (spec_runtimeRecord
       (example_metric ''lambda_invoke'' [\<lparr> mm_type = ''result'', mm_required = Some True \<rparr>]))
     = [''result'']
   \<and> metadataTypes
       (example_metric ''lambda_invoke'' [\<lparr> mm_type = ''result'', mm_required = Some True \<rparr>]) = []
   \<and> definitionsField
       (example_metric ''lambda_invoke'' [\<lparr> mm_type = ''result'', mm_required = Some True \<rparr>])
     \<noteq> renderRecord ''lambda_invoke'' (spec_runtimeRecord
       (example_metric ''lambda_invoke'' [\<lparr> mm_type = ''result'', mm_required = Some True \<rparr>]))"
  by code_simp

subsection \<open>How a run fails\<close>

lemma generateFile_base_fails:
  assumes "fst (generateMetricBase (r_types input) st) = Inl e"
  shows "fst (generateFile input dest st) = Inl e"
  using assms
  by (cases "generateMetricBase (r_types input) st") (simp add: generateFile_def)

lemma generateFile_interfaces_fail:
  assumes "\<And>s. \<exists>e. fst (mapM (\<lambda>m. generateMetricInterface m (r_types input)) (r_metrics input) s) = Inl e"
  shows "\<exists>e. fst (generateFile input dest st) = Inl e"
proof (cases "generateMetricBase (r_types input) st")
  case (Pair r st1)
  show ?thesis
  proof (cases r)
    case (Inl e)
    with Pair show ?thesis
      by (simp add: generateFile_def)
  next
    case (Inr base)
    from assms [of st1] obtain e st2
      where "mapM (\<lambda>m. generateMetricInterface m (r_types input)) (r_metrics input) st1 = (Inl e, st2)"
      by (cases "mapM (\<lambda>m. generateMetricInterface m (r_types input)) (r_metrics input) st1") auto
    with Pair Inr show ?thesis
      by (simp add: generateFile_def)
  qed
qed

lemma metricToTypeName_error:
  "metricToTypeName m = Inl e \<Longrightarrow> e = TypeError undefinedToUpperCase"
proof -
  assume "metricToTypeName m = Inl e"
  then have "mapE toTitleCase (split (CHR ''_'') (m_name m)) = Inl e"
    by (simp add: metricToTypeName_def snakeCaseToPascalCase_def split: sum.splits)
  from mapE_Inl_source [OF this] obtain s where "toTitleCase s = Inl e"
    by blast
  then show ?thesis
    by (cases s) (simp_all add: toTitleCase_Nil toTitleCase_Cons)
qed

lemma mapE_name_error:
  assumes "mapE (\<lambda>m. case metricToTypeName m of Inl e \<Rightarrow> Inl e | Inr tn \<Rightarrow> Inr (g m tn)) ms = Inl e"
  shows "\<exists>m \<in> set ms. metricToTypeName m = Inl e"
proof -
  from mapE_Inl_source [OF assms] obtain m where m: "m \<in> set ms"
    and c: "(case metricToTypeName m of Inl e \<Rightarrow> Inl e | Inr tn \<Rightarrow> Inr (g m tn)) = Inl e"
    by blast
  from c have "metricToTypeName m = Inl e"
    by (cases "metricToTypeName m") simp_all
  with m show ?thesis ..
qed

lemma generateMetricShapeMap_error:
  assumes "generateMetricShapeMap ms = Inl e"
  shows "\<exists>m \<in> set ms. metricToTypeName m = Inl e"
  using assms unfolding generateMetricShapeMap_def
  by (auto split: sum.splits dest: mapE_name_error)

lemma generateTelemetryHelper_error:
  assumes "generateTelemetryHelper recorder ms = Inl e"
  shows "\<exists>m \<in> set ms. metricToTypeName m = Inl e"
  using assms unfolding generateTelemetryHelper_def Let_def
  by (auto split: sum.splits dest: mapE_name_error)

lemma generateFile_Inl_source:
  assumes "fst (generateFile input dest st) = Inl e"
  shows "fst (generateMetricBase (r_types input) st) = Inl e
    \<or> (\<exists>m \<in> set (r_metrics input). \<exists>s. fst (generateMetricInterface m (r_types input) s) = Inl e)
    \<or> (\<exists>m \<in> set (r_metrics input). metricToTypeName m = Inl e)"
proof (cases "generateMetricBase (r_types input) st")
  case (Pair r st1)
  show ?thesis
  proof (cases r)
    case (Inl e')
    with Pair assms show ?thesis
      by (simp add: generateFile_def)
  next
    case base: (Inr base)
    obtain r2 st2
      where i: "mapM (\<lambda>m. generateMetricInterface m (r_types input)) (r_metrics input) st1 = (r2, st2)"
      by (cases "mapM (\<lambda>m. generateMetricInterface m (r_types input)) (r_metrics input) st1")
    show ?thesis
    proof (cases r2)
      case (Inl e')
      with Pair base i assms
      have "fst (mapM (\<lambda>m. generateMetricInterface m (r_types input)) (r_metrics input) st1) = Inl e"
        by (simp add: generateFile_def)
      from mapM_Inl_source [OF this] show ?thesis
        by blast
    next
      case interfaces: (Inr interfaces)
      show ?thesis
      proof (cases "generateMetricShapeMap (r_metrics input)")
        case (Inl e')
        with Pair base i interfaces assms have "generateMetricShapeMap (r_metrics input) = Inl e"
          by (simp add: generateFile_def)
        from generateMetricShapeMap_error [OF this] show ?thesis
          by blast
      next
        case shape: (Inr metricsMap)
        with Pair base i interfaces assms
        have "\<exists>recorder. generateTelemetryHelper recorder (r_metrics input) = Inl e"
          by (auto simp: generateFile_def Let_def split: sum.splits)
        then show ?thesis
          by (auto dest: generateTelemetryHelper_error)
      qed
    qed
  qed
qed

lemma toProp_error_form:
  assumes "fst (toProp types n s) = Inl e"
  shows "(e = Error (''did not find type: '' @ n) \<and> \<not> declared types n) \<or> (\<exists>msg. e = TypeError msg)"
proof (cases "declared types n")
  case True
  then obtain t where "getTypeOrThrow types n = Inr t"
    using getTypeOrThrow_declared by blast
  with assms have "fst (getArgsFromMetadata t s) = Inl e"
    by (simp add: toProp_fst split: sum.splits)
  then show ?thesis
    by (auto dest: getArgs_error_is_TypeError)
next
  case False
  with assms show ?thesis
    by (simp add: toProp_undeclared)
qed

lemma metricProperty_error_form:
  assumes "fst (metricProperty types r s) = Inl e"
  shows "(e = Error (''did not find type: '' @ mm_type r) \<and> \<not> declared types (mm_type r))
    \<or> (\<exists>msg. e = TypeError msg)"
proof (cases "declared types (mm_type r)")
  case True
  then obtain t where "getTypeOrThrow types (mm_type r) = Inr t"
    using getTypeOrThrow_declared by blast
  with assms have "fst (getArgsFromMetadata t s) = Inl e"
    by (simp add: metricProperty_fst split: sum.splits)
  then show ?thesis
    by (auto dest: getArgs_error_is_TypeError)
next
  case False
  with assms show ?thesis
    by (simp add: metricProperty_undeclared)
qed

lemma generateFile_error_form:
  assumes "fst (generateFile input dest st) = Inl e"
  shows "(\<exists>n. e = Error (''did not find type: '' @ n) \<and> \<not> declared (r_types input) n)
    \<or> (\<exists>msg. e = TypeError msg)"
proof -
  from generateFile_Inl_source [OF assms]
  consider (base) "fst (generateMetricBase (r_types input) st) = Inl e"
    | (iface) m s where "fst (generateMetricInterface m (r_types input) s) = Inl e"
    | (name) m where "metricToTypeName m = Inl e"
    by blast
  then show ?thesis
  proof cases
    case base
    then have "fst (mapM (toProp (r_types input)) commonMetadata st) = Inl e"
      by (simp add: generateMetricBase_fst split: sum.splits)
    from mapM_Inl_source [OF this] obtain n s where "fst (toProp (r_types input) n s) = Inl e"
      by blast
    from toProp_error_form [OF this] show ?thesis
      by blast
  next
    case iface
    show ?thesis
    proof (cases "metricToTypeName m")
      case (Inl e')
      with iface have "metricToTypeName m = Inl e"
        by (simp add: generateMetricInterface_fst)
      then show ?thesis
        by (auto dest: metricToTypeName_error)
    next
      case (Inr tn)
      with iface
      have "fst (mapM (metricProperty (r_types input)) (getMetricMetadata m) s) = Inl e"
        by (simp add: generateMetricInterface_fst split: sum.splits)
      from mapM_Inl_source [OF this] obtain r s'
        where "fst (metricProperty (r_types input) r s') = Inl e"
        by blast
      from metricProperty_error_form [OF this] show ?thesis
        by blast
    qed
  next
    case name
    then show ?thesis
      by (auto dest: metricToTypeName_error)
  qed
qed

lemma generate_fails:
  assumes "fst (generateFile (mergedInput docs) outputFile (w_exportedTypes w)) = Inl e"
  shows "\<exists>w'. generate docs outputFile w = (Inl e, w') \<and> w_written w' = w_written w"
  using assms
  by (cases "generateFile (mergedInput docs) outputFile (w_exportedTypes w)")
    (simp add: generate_def)

lemma generateMetricInterface_fails_on_undeclared:
  assumes "r \<in> set (getMetricMetadata m)" and "\<not> declared types (mm_type r)"
  shows "\<exists>e. fst (generateMetricInterface m types s) = Inl e"
proof (cases "metricToTypeName m")
  case (Inl e)
  then show ?thesis
    by (simp add: generateMetricInterface_fst)
next
  case (Inr tn)
  have "\<exists>e. fst (mapM (metricProperty types) (getMetricMetadata m) s) = Inl e"
    using assms(1)
    by (rule mapM_fails_if_member_fails) (simp add: metricProperty_undeclared assms(2))
  with Inr show ?thesis
    by (auto simp: generateMetricInterface_fst)
qed

lemma generateMetricBase_fails_on_undeclared:
  assumes "n \<in> set commonMetadata" and "\<not> declared types n"
  shows "\<exists>e. fst (generateMetricBase types s) = Inl e"
proof -
  have "\<exists>e. fst (mapM (toProp types) commonMetadata s) = Inl e"
    using assms(1)
    by (rule mapM_fails_if_member_fails) (simp add: toProp_undeclared assms(2))
  then show ?thesis
    by (auto simp: generateMetricBase_fst)
qed

lemma generateFile_fails_on_metric:
  assumes "m \<in> set (r_metrics input)"
    and "\<And>s. \<exists>e. fst (generateMetricInterface m (r_types input) s) = Inl e"
  shows "\<exists>e. fst (generateFile input dest st) = Inl e"
proof (rule generateFile_interfaces_fail)
  fix s
  show "\<exists>e. fst (mapM (\<lambda>m. generateMetricInterface m (r_types input)) (r_metrics input) s) = Inl e"
    using assms(1) by (rule mapM_fails_if_member_fails) (rule assms(2))
qed

text \<open>
  Claim C3, as amended. When a metric of the merged schema references a metadata-type
  name that the merged types do not declare, the run fails and writes no file. The
  error thrown is the first one met: either the lookup error \<open>did not find type: <name>\<close>
  for a name the merged types do not declare, or a TypeError (an unknown kind, or a
  name without a first character). The lookup error carries the type name only; the
  metric is not named.
\<close>

theorem undeclared_reference_fails:
  assumes "m \<in> set (r_metrics (mergedInput docs))"
    and "m_metadata m = Some refs" and "r \<in> set refs"
    and "\<not> declared (r_types (mergedInput docs)) (mm_type r)"
  shows "\<exists>e w'. generate docs outputFile w = (Inl e, w')
    \<and> w_written w' = w_written w
    \<and> ((\<exists>n. e = Error (''did not find type: '' @ n) \<and> \<not> declared (r_types (mergedInput docs)) n)
       \<or> (\<exists>msg. e = TypeError msg))"
proof -
  let ?input = "mergedInput docs"
  have "\<exists>e. fst (generateFile ?input outputFile (w_exportedTypes w)) = Inl e"
  proof (cases "mm_type r \<in> set commonMetadata")
    case True
    from generateMetricBase_fails_on_undeclared [OF this assms(4)]
    show ?thesis
      by (auto dest: generateFile_base_fails)
  next
    case False
    with assms(2,3) have "r \<in> set (getMetricMetadata m)"
      by (simp add: getMetricMetadata_def)
    then have "\<And>s. \<exists>e. fst (generateMetricInterface m (r_types ?input) s) = Inl e"
      using assms(4) by (rule generateMetricInterface_fails_on_undeclared)
    with assms(1) show ?thesis
      by (rule generateFile_fails_on_metric)
  qed
  then obtain e where e: "fst (generateFile ?input outputFile (w_exportedTypes w)) = Inl e" ..
  from generate_fails [OF e] generateFile_error_form [OF e] show ?thesis
    by blast
qed

theorem undeclared_reference_fails_witness:
  "example_metric ''lambda_invoke'' [\<lparr> mm_type = ''foo'', mm_required = None \<rparr>]
     \<in> set (r_metrics (mergedInput
         [example_schema [] [example_metric ''lambda_invoke''
            [\<lparr> mm_type = ''foo'', mm_required = None \<rparr>]]]))
   \<and> \<not> declared (r_types (mergedInput
         [example_schema [] [example_metric ''lambda_invoke''
            [\<lparr> mm_type = ''foo'', mm_required = None \<rparr>]]])) ''foo''
   \<and> (\<exists>e w'. generate
         [example_schema [] [example_metric ''lambda_invoke''
            [\<lparr> mm_type = ''foo'', mm_required = None \<rparr>]]] ''out.ts'' emptyWorld = (Inl e, w')
       \<and> w_written w' = w_written emptyWorld)"
proof -
  let ?r = "\<lparr> mm_type = ''foo'', mm_required = None \<rparr>"
  let ?m = "example_metric ''lambda_invoke'' [?r]"
  let ?docs = "[example_schema [] [?m]]"
  have m: "?m \<in> set (r_metrics (mergedInput ?docs))"
    by code_simp
  have refs: "m_metadata ?m = Some [?r]"
    by (simp add: example_metric_def)
  have r: "?r \<in> set [?r]"
    by simp
  have u: "\<not> declared (r_types (mergedInput ?docs)) (mm_type ?r)"
    by code_simp
  then have u': "\<not> declared (r_types (mergedInput ?docs)) ''foo''"
    by simp
  from undeclared_reference_fails [OF m refs r u, of "''out.ts''" emptyWorld]
  have "\<exists>e w'. generate ?docs ''out.ts'' emptyWorld = (Inl e, w')
      \<and> w_written w' = w_written emptyWorld"
    by (elim exE conjE) (intro exI conjI)
  with m u' show ?thesis
    by (intro conjI)
qed

text \<open>
  The claim as stated fails: the metric \<open>lambda_invoke\<close> references the undeclared type
  \<open>foo\<close>, the run throws \<open>did not find type: foo\<close> and writes nothing, and the name of the
  metric does not occur in the message.
\<close>

theorem undeclared_reference_counterexample:
  "generate [example_schema [] [example_metric ''lambda_invoke''
        [\<lparr> mm_type = ''foo'', mm_required = None \<rparr>]]] ''out.ts'' emptyWorld
     = (Inl (Error ''did not find type: foo''), emptyWorld)
   \<and> \<not> includes_str ''did not find type: foo'' ''lambda_invoke''"
  by code_simp

subsection \<open>The base type needs the ten common names\<close>

lemma toProp_Inr_iff:
  "(\<exists>p. fst (toProp types n s) = Inr p)
     \<longleftrightarrow> (\<exists>t. getTypeOrThrow types n = Inr t \<and> resolves t)"
proof (cases "getTypeOrThrow types n")
  case (Inl e)
  then show ?thesis
    by (simp add: toProp_fst)
next
  case (Inr t)
  have "(\<exists>p. fst (toProp types n s) = Inr p) \<longleftrightarrow> (\<exists>ty. fst (getArgsFromMetadata t s) = Inr ty)"
    using Inr by (cases "fst (getArgsFromMetadata t s)") (simp_all add: toProp_fst)
  with Inr show ?thesis
    by (simp add: getArgs_Inr_iff)
qed

lemma toProp_Inl_any_state:
  "fst (toProp types n s) = Inl e \<longleftrightarrow> fst (toProp types n []) = Inl e"
proof (cases "getTypeOrThrow types n")
  case (Inl e')
  then show ?thesis
    by (simp add: toProp_fst)
next
  case (Inr t)
  have "fst (toProp types n s') = Inl e \<longleftrightarrow> fst (getArgsFromMetadata t s') = Inl e" for s'
    using Inr by (cases "fst (getArgsFromMetadata t s')") (simp_all add: toProp_fst)
  then show ?thesis
    using getArgs_error_any_state [of t s e] by simp
qed

lemma toProp_lookup_error_iff:
  "fst (toProp types n s) = Inl (Error msg)
     \<longleftrightarrow> \<not> declared types n \<and> msg = ''did not find type: '' @ n"
proof (cases "declared types n")
  case True
  have "fst (toProp types n s) \<noteq> Inl (Error msg)"
  proof
    assume "fst (toProp types n s) = Inl (Error msg)"
    from toProp_error_form [OF this] True show False
      by simp
  qed
  with True show ?thesis by simp
next
  case False
  then show ?thesis
    by (auto simp: toProp_undeclared)
qed

lemma base_lookup_error_iff:
  "(\<exists>msg. fst (generateMetricBase types st) = Inl (Error msg))
     \<longleftrightarrow> (\<exists>pre n post. commonMetadata = pre @ n # post \<and> \<not> declared types n
           \<and> (\<forall>p \<in> set pre. \<exists>t. getTypeOrThrow types p = Inr t \<and> resolves t))"
proof -
  define err where "err n = (case fst (toProp types n []) of Inl e \<Rightarrow> Some e | Inr p \<Rightarrow> None)" for n
  have ok: "(\<exists>y. fst (toProp types x s) = Inr y) \<longleftrightarrow> err x = None" for x s
    unfolding err_def toProp_Inr_iff [of types x s, unfolded toProp_Inr_iff [of types x "[]", symmetric]]
    by (cases "fst (toProp types x [])") simp_all
  have bad: "fst (toProp types x s) = Inl e \<longleftrightarrow> err x = Some e" for x s e
    unfolding err_def toProp_Inl_any_state [of types x s e]
    by (cases "fst (toProp types x [])") simp_all
  have none: "err p = None \<longleftrightarrow> (\<exists>t. getTypeOrThrow types p = Inr t \<and> resolves t)" for p
    using ok [of p "[]"] toProp_Inr_iff [of types p "[]"] by simp
  have some: "err n = Some (Error msg) \<longleftrightarrow> \<not> declared types n \<and> msg = ''did not find type: '' @ n"
    for n msg
    using bad [of n "[]" "Error msg"] toProp_lookup_error_iff [of types n "[]" msg] by simp
  have "(\<exists>msg. fst (generateMetricBase types st) = Inl (Error msg))
      \<longleftrightarrow> (\<exists>msg. fst (mapM (toProp types) commonMetadata st) = Inl (Error msg))"
    by (cases "fst (mapM (toProp types) commonMetadata st)") (simp_all add: generateMetricBase_fst)
  also have "\<dots> \<longleftrightarrow> (\<exists>msg pre n post. commonMetadata = pre @ n # post
      \<and> (\<forall>p \<in> set pre. err p = None) \<and> err n = Some (Error msg))"
    unfolding mapM_Inl_iff [of "toProp types" err, OF ok bad] ..
  also have "\<dots> \<longleftrightarrow> (\<exists>pre n post. commonMetadata = pre @ n # post \<and> \<not> declared types n
      \<and> (\<forall>p \<in> set pre. \<exists>t. getTypeOrThrow types p = Inr t \<and> resolves t))"
    unfolding none some by blast
  finally show ?thesis .
qed

text \<open>
  Claim C8, as amended. Generating the base type throws a lookup error exactly when
  one of the ten common names is not declared and every common name before it in the
  list is declared and resolves (a declared name of an unknown kind throws its
  TypeError first). So when every declared common type resolves, the base type throws
  a lookup error if and only if one of the ten names is not declared. In every case a
  schema that lacks one of the ten makes the run fail before a file is written.
\<close>

theorem base_type_needs_common_names:
  "((\<exists>msg. fst (generateMetricBase types st) = Inl (Error msg))
      \<longleftrightarrow> (\<exists>pre n post. commonMetadata = pre @ n # post \<and> \<not> declared types n
            \<and> (\<forall>p \<in> set pre. \<exists>t. getTypeOrThrow types p = Inr t \<and> resolves t)))
   \<and> ((\<forall>t \<in> set (case types of None \<Rightarrow> [] | Some ts \<Rightarrow> ts).
          mt_name t \<in> set commonMetadata \<longrightarrow> resolves t) \<longrightarrow>
        ((\<exists>msg. fst (generateMetricBase types st) = Inl (Error msg))
          \<longleftrightarrow> (\<exists>n \<in> set commonMetadata. \<not> declared types n)))
   \<and> ((\<exists>n \<in> set commonMetadata. \<not> declared (r_types (mergedInput docs)) n) \<longrightarrow>
        (\<exists>e w'. generate docs outputFile w = (Inl e, w') \<and> w_written w' = w_written w))"
proof (intro conjI impI)
  show "(\<exists>msg. fst (generateMetricBase types st) = Inl (Error msg))
      \<longleftrightarrow> (\<exists>pre n post. commonMetadata = pre @ n # post \<and> \<not> declared types n
            \<and> (\<forall>p \<in> set pre. \<exists>t. getTypeOrThrow types p = Inr t \<and> resolves t))"
    by (rule base_lookup_error_iff)
next
  assume known: "\<forall>t \<in> set (case types of None \<Rightarrow> [] | Some ts \<Rightarrow> ts).
      mt_name t \<in> set commonMetadata \<longrightarrow> resolves t"
  show "(\<exists>msg. fst (generateMetricBase types st) = Inl (Error msg))
      \<longleftrightarrow> (\<exists>n \<in> set commonMetadata. \<not> declared types n)"
  proof
    assume "\<exists>msg. fst (generateMetricBase types st) = Inl (Error msg)"
    then obtain pre n post where sp: "commonMetadata = pre @ n # post" and n: "\<not> declared types n"
      unfolding base_lookup_error_iff by blast
    have "n \<in> set commonMetadata"
      unfolding sp by simp
    with n show "\<exists>n \<in> set commonMetadata. \<not> declared types n"
      by blast
  next
    assume "\<exists>n \<in> set commonMetadata. \<not> declared types n"
    from split_list_first_prop [OF this] obtain pre n post
      where sp: "commonMetadata = pre @ n # post" and n: "\<not> declared types n"
        and pre: "\<forall>p \<in> set pre. declared types p"
      by auto
    have "\<forall>p \<in> set pre. \<exists>t. getTypeOrThrow types p = Inr t \<and> resolves t"
    proof
      fix p
      assume p: "p \<in> set pre"
      with pre obtain t where t: "getTypeOrThrow types p = Inr t"
        using getTypeOrThrow_declared by blast
      have "p \<in> set commonMetadata"
        unfolding sp using p by simp
      then have "mt_name t \<in> set commonMetadata"
        using getTypeOrThrow_Inr(1) [OF t] by simp
      with known getTypeOrThrow_Inr(3) [OF t] have "resolves t"
        by blast
      with t show "\<exists>t. getTypeOrThrow types p = Inr t \<and> resolves t"
        by blast
    qed
    with sp n show "\<exists>msg. fst (generateMetricBase types st) = Inl (Error msg)"
      unfolding base_lookup_error_iff by blast
  qed
next
  assume "\<exists>n \<in> set commonMetadata. \<not> declared (r_types (mergedInput docs)) n"
  then obtain n where "n \<in> set commonMetadata" and "\<not> declared (r_types (mergedInput docs)) n"
    by blast
  from generateMetricBase_fails_on_undeclared [OF this, of "w_exportedTypes w"]
  obtain e where "fst (generateMetricBase (r_types (mergedInput docs)) (w_exportedTypes w)) = Inl e" ..
  then have "fst (generateFile (mergedInput docs) outputFile (w_exportedTypes w)) = Inl e"
    by (rule generateFile_base_fails)
  from generate_fails [OF this]
  show "\<exists>e w'. generate docs outputFile w = (Inl e, w') \<and> w_written w' = w_written w"
    by blast
qed

theorem base_type_needs_common_names_witness:
  "(\<exists>n \<in> set commonMetadata. \<not> declared (Some (remove1 (example_type ''duration'') example_types)) n)
   \<and> (\<exists>msg. fst (generateMetricBase (Some (remove1 (example_type ''duration'') example_types)) [])
          = Inl (Error msg))
   \<and> (\<exists>e w'. generate
          [\<lparr> r_types = Some (remove1 (example_type ''duration'') example_types), r_metrics = [] \<rparr>]
          ''out.ts'' emptyWorld = (Inl e, w')
        \<and> w_written w' = w_written emptyWorld)"
proof -
  let ?types = "Some (remove1 (example_type ''duration'') example_types)"
  let ?docs = "[\<lparr> r_types = ?types, r_metrics = [] \<rparr>]"
  note inst = base_type_needs_common_names [of ?types "[]" ?docs "''out.ts''" emptyWorld]
  have known: "\<forall>t \<in> set (case ?types of None \<Rightarrow> [] | Some ts \<Rightarrow> ts).
      mt_name t \<in> set commonMetadata \<longrightarrow> resolves t"
    by code_simp
  have missing: "\<exists>n \<in> set commonMetadata. \<not> declared ?types n"
    by code_simp
  have missing': "\<exists>n \<in> set commonMetadata. \<not> declared (r_types (mergedInput ?docs)) n"
    by code_simp
  from inst known missing have 1: "\<exists>msg. fst (generateMetricBase ?types []) = Inl (Error msg)"
    by (elim conjE) (simp only: simp_thms)
  from inst missing' have 2: "\<exists>e w'. generate ?docs ''out.ts'' emptyWorld = (Inl e, w')
      \<and> w_written w' = w_written emptyWorld"
    by (elim conjE) (simp only: simp_thms)
  from missing 1 2 show ?thesis
    by (intro conjI)
qed

text \<open>
  The claim as stated fails: here \<open>source\<close> is not declared, and generating the base
  type throws the TypeError of the unknown kind of \<open>awsAccount\<close>, which comes first in
  the list, not a lookup error.
\<close>

theorem base_type_lookup_error_counterexample:
  "''source'' \<in> set commonMetadata
   \<and> \<not> declared (Some (\<lparr> mt_name = ''awsAccount'', mt_description = ''d'',
                           mt_allowedValues = None, mt_type = Some ''float'' \<rparr>
                         # map example_type (butlast (tl commonMetadata)))) ''source''
   \<and> fst (generateMetricBase
            (Some (\<lparr> mt_name = ''awsAccount'', mt_description = ''d'',
                      mt_allowedValues = None, mt_type = Some ''float'' \<rparr>
                    # map example_type (butlast (tl commonMetadata)))) [])
       = Inl (TypeError ''unknown type float in metadata awsAccount'')"
  by code_simp

subsection \<open>Names without a first character\<close>

lemma split_not_Nil: "split c s \<noteq> []"
  by (induction s) (auto split: list.splits)

lemma hd_split_Nil_iff: "hd (split c s) = [] \<longleftrightarrow> s = [] \<or> hd s = c"
  using split_not_Nil [of c "tl s"]
  by (cases s) (auto split: list.splits)

lemma twice_Cons_iff:
  "(\<exists>a b. x # xs = a @ [c, c] @ b)
     \<longleftrightarrow> (x = c \<and> xs \<noteq> [] \<and> hd xs = c) \<or> (\<exists>a b. xs = a @ [c, c] @ b)"
proof
  assume "\<exists>a b. x # xs = a @ [c, c] @ b"
  then obtain a b where ab: "x # xs = a @ [c, c] @ b"
    by blast
  show "(x = c \<and> xs \<noteq> [] \<and> hd xs = c) \<or> (\<exists>a b. xs = a @ [c, c] @ b)"
  proof (cases a)
    case Nil
    with ab show ?thesis by auto
  next
    case (Cons y ys)
    with ab have "xs = ys @ [c, c] @ b"
      by simp
    then show ?thesis by blast
  qed
next
  assume "(x = c \<and> xs \<noteq> [] \<and> hd xs = c) \<or> (\<exists>a b. xs = a @ [c, c] @ b)"
  then show "\<exists>a b. x # xs = a @ [c, c] @ b"
  proof
    assume "x = c \<and> xs \<noteq> [] \<and> hd xs = c"
    then have "x # xs = [] @ [c, c] @ tl xs"
      by (cases xs) simp_all
    then show ?thesis by blast
  next
    assume "\<exists>a b. xs = a @ [c, c] @ b"
    then obtain a b where "xs = a @ [c, c] @ b"
      by blast
    then have "x # xs = (x # a) @ [c, c] @ b"
      by simp
    then show ?thesis by blast
  qed
qed

lemma tl_split_Nil_iff:
  "[] \<in> set (tl (split c s)) \<longleftrightarrow> s \<noteq> [] \<and> (last s = c \<or> (\<exists>a b. s = a @ [c, c] @ b))"
proof (induction s)
  case Nil
  show ?case by simp
next
  case (Cons x xs)
  show ?case
  proof (cases "x = c")
    case True
    have "[] \<in> set (tl (split c (x # xs))) \<longleftrightarrow> [] \<in> set (split c xs)"
      using True by simp
    also have "\<dots> \<longleftrightarrow> hd (split c xs) = [] \<or> [] \<in> set (tl (split c xs))"
      using split_not_Nil [of c xs] by (cases "split c xs") auto
    also have "\<dots> \<longleftrightarrow> (xs = [] \<or> hd xs = c)
        \<or> (xs \<noteq> [] \<and> (last xs = c \<or> (\<exists>a b. xs = a @ [c, c] @ b)))"
      unfolding hd_split_Nil_iff Cons.IH ..
    also have "\<dots> \<longleftrightarrow> last (x # xs) = c \<or> (\<exists>a b. x # xs = a @ [c, c] @ b)"
      unfolding twice_Cons_iff using True by auto
    finally show ?thesis by simp
  next
    case False
    have "[] \<in> set (tl (split c (x # xs))) \<longleftrightarrow> [] \<in> set (tl (split c xs))"
      using False split_not_Nil [of c xs] by (cases "split c xs") auto
    also have "\<dots> \<longleftrightarrow> xs \<noteq> [] \<and> (last xs = c \<or> (\<exists>a b. xs = a @ [c, c] @ b))"
      by (rule Cons.IH)
    also have "\<dots> \<longleftrightarrow> last (x # xs) = c \<or> (\<exists>a b. x # xs = a @ [c, c] @ b)"
      unfolding twice_Cons_iff using False by auto
    finally show ?thesis by simp
  qed
qed

lemma empty_segment_iff:
  "[] \<in> set (split c s)
     \<longleftrightarrow> s = [] \<or> hd s = c \<or> last s = c \<or> (\<exists>a b. s = a @ [c, c] @ b)"
proof -
  have "[] \<in> set (split c s) \<longleftrightarrow> hd (split c s) = [] \<or> [] \<in> set (tl (split c s))"
    using split_not_Nil [of c s] by (cases "split c s") auto
  then show ?thesis
    unfolding hd_split_Nil_iff tl_split_Nil_iff by auto
qed

lemma snakeCase_fails_iff:
  "(\<exists>e. snakeCaseToPascalCase s = Inl e) \<longleftrightarrow> [] \<in> set (split (CHR ''_'') s)"
proof -
  have "(\<exists>e. snakeCaseToPascalCase s = Inl e)
      \<longleftrightarrow> (\<exists>e. mapE toTitleCase (split (CHR ''_'') s) = Inl e)"
    by (cases "mapE toTitleCase (split (CHR ''_'') s)") (simp_all add: snakeCaseToPascalCase_def)
  also have "\<dots> \<longleftrightarrow> (\<exists>x \<in> set (split (CHR ''_'') s). \<exists>e. toTitleCase x = Inl e)"
    by (rule mapE_Inl_iff)
  also have "\<dots> \<longleftrightarrow> [] \<in> set (split (CHR ''_'') s)"
    unfolding toTitleCase_Inl_iff by auto
  finally show ?thesis .
qed

lemma snakeCase_error:
  assumes "snakeCaseToPascalCase s = Inl e"
  shows "e = TypeError undefinedToUpperCase"
proof -
  from assms have "mapE toTitleCase (split (CHR ''_'') s) = Inl e"
    by (simp add: snakeCaseToPascalCase_def split: sum.splits)
  from mapE_Inl_source [OF this] obtain x where "toTitleCase x = Inl e"
    by blast
  then show ?thesis
    by (cases x) (simp_all add: toTitleCase_Nil toTitleCase_Cons)
qed

lemma interface_fails_on_empty_segment:
  assumes "[] \<in> set (split (CHR ''_'') (m_name m))"
  shows "generateMetricInterface m types st = (Inl (TypeError undefinedToUpperCase), st)"
proof -
  from assms obtain e where e: "snakeCaseToPascalCase (m_name m) = Inl e"
    unfolding snakeCase_fails_iff [symmetric] ..
  from snakeCase_error [OF e] e show ?thesis
    by (simp add: generateMetricInterface_def metricToTypeName_def)
qed

lemma empty_name_not_common: "[] \<notin> set commonMetadata"
  by (simp add: commonMetadata_def)

lemma interface_fails_on_empty_enum:
  assumes "m_metadata m = Some refs" and "r \<in> set refs"
    and "getTypeOrThrow types (mm_type r) = Inr t"
    and "mt_allowedValues t \<noteq> None" and "mt_name t = []"
  shows "\<exists>e. fst (generateMetricInterface m types s) = Inl e"
proof (cases "metricToTypeName m")
  case (Inl e)
  then show ?thesis
    by (simp add: generateMetricInterface_fst)
next
  case (Inr tn)
  from getTypeOrThrow_Inr(1) [OF assms(3)] assms(5) have "mm_type r = []"
    by simp
  with assms(1,2) have mem: "r \<in> set (getMetricMetadata m)"
    by (simp add: getMetricMetadata_def empty_name_not_common)
  from assms(4) obtain vs where "mt_allowedValues t = Some vs"
    by auto
  from getArgs_enum_empty_name [OF this assms(5)]
  have "\<exists>e. fst (metricProperty types r s') = Inl e" for s'
    by (simp add: metricProperty_fst assms(3))
  with mem have "\<exists>e. fst (mapM (metricProperty types) (getMetricMetadata m) s) = Inl e"
    by (rule mapM_fails_if_member_fails)
  with Inr show ?thesis
    by (auto simp: generateMetricInterface_fst)
qed

text \<open>
  Claim C9, as amended. The conversion of a snake case name is partial: it throws
  exactly when a segment between underscores is empty, that is when the name is empty,
  starts or ends with an underscore or has two underscores in a row, and what it throws
  is the TypeError of upper-casing the first character of an empty string; it returns
  when every segment is non-empty. The interface of a metric with such a name throws
  that TypeError before anything else, so a schema with such a metric yields no file.
  Resolving an enumerated metadata type whose name is the empty string throws the same
  TypeError, so a schema in which a metric references such a type yields no file; a type
  that no metric references is never resolved.
\<close>

theorem name_conversion_partial:
  "((\<exists>e. snakeCaseToPascalCase s = Inl e) \<longleftrightarrow> [] \<in> set (split (CHR ''_'') s))
   \<and> ([] \<in> set (split (CHR ''_'') s)
        \<longleftrightarrow> s = [] \<or> hd s = CHR ''_'' \<or> last s = CHR ''_'' \<or> (\<exists>a b. s = a @ ''__'' @ b))
   \<and> (snakeCaseToPascalCase s = Inl e \<longrightarrow> e = TypeError undefinedToUpperCase)
   \<and> ([] \<in> set (split (CHR ''_'') (m_name m)) \<longrightarrow>
        generateMetricInterface m types st = (Inl (TypeError undefinedToUpperCase), st)
        \<and> (m \<in> set (r_metrics input) \<longrightarrow> (\<exists>e. fst (generateFile input dest st) = Inl e)))
   \<and> (mt_allowedValues t \<noteq> None \<and> mt_name t = [] \<longrightarrow>
        getArgsFromMetadata t st = (Inl (TypeError undefinedToUpperCase), st)
        \<and> (m \<in> set (r_metrics input) \<and> m_metadata m = Some refs \<and> r \<in> set refs
             \<and> getTypeOrThrow (r_types input) (mm_type r) = Inr t \<longrightarrow>
            (\<exists>e. fst (generateFile input dest st) = Inl e)))"
proof (intro conjI impI)
  show "(\<exists>e. snakeCaseToPascalCase s = Inl e) \<longleftrightarrow> [] \<in> set (split (CHR ''_'') s)"
    by (rule snakeCase_fails_iff)
  show "[] \<in> set (split (CHR ''_'') s)
      \<longleftrightarrow> s = [] \<or> hd s = CHR ''_'' \<or> last s = CHR ''_'' \<or> (\<exists>a b. s = a @ ''__'' @ b)"
    by (rule empty_segment_iff)
  show "e = TypeError undefinedToUpperCase" if "snakeCaseToPascalCase s = Inl e"
    using that by (rule snakeCase_error)
next
  assume seg: "[] \<in> set (split (CHR ''_'') (m_name m))"
  then show "generateMetricInterface m types st = (Inl (TypeError undefinedToUpperCase), st)"
    by (rule interface_fails_on_empty_segment)
  assume "m \<in> set (r_metrics input)"
  then show "\<exists>e. fst (generateFile input dest st) = Inl e"
    by (rule generateFile_fails_on_metric)
      (simp add: interface_fails_on_empty_segment [OF seg])
next
  assume t: "mt_allowedValues t \<noteq> None \<and> mt_name t = []"
  then obtain vs where "mt_allowedValues t = Some vs" and "mt_name t = []"
    by auto
  then show "getArgsFromMetadata t st = (Inl (TypeError undefinedToUpperCase), st)"
    by (rule getArgs_enum_empty_name)
  assume "m \<in> set (r_metrics input) \<and> m_metadata m = Some refs \<and> r \<in> set refs
      \<and> getTypeOrThrow (r_types input) (mm_type r) = Inr t"
  with t show "\<exists>e. fst (generateFile input dest st) = Inl e"
    by (intro generateFile_fails_on_metric [of m] interface_fails_on_empty_enum [of m refs r _ t])
      simp_all
qed

theorem name_conversion_partial_witness:
  "[] \<in> set (split (CHR ''_'') ''foo_'')
   \<and> snakeCaseToPascalCase ''foo_'' = Inl (TypeError undefinedToUpperCase)
   \<and> snakeCaseToPascalCase ''lambda_invoke'' = Inr ''LambdaInvoke''
   \<and> (\<exists>e. fst (generateFile (example_schema [] [example_metric ''foo_'' []]) ''out.ts'' []) = Inl e)
   \<and> (\<exists>e. fst (generateFile
               (example_schema [example_unnamed]
                  [example_metric ''lambda_invoke'' [\<lparr> mm_type = [], mm_required = None \<rparr>]])
               ''out.ts'' []) = Inl e)"
proof -
  let ?m1 = "example_metric ''foo_'' []"
  let ?in1 = "example_schema [] [?m1]"
  let ?r = "\<lparr> mm_type = [], mm_required = None \<rparr>"
  let ?m2 = "example_metric ''lambda_invoke'' [?r]"
  let ?in2 = "example_schema [example_unnamed] [?m2]"
  have seg: "[] \<in> set (split (CHR ''_'') ''foo_'')"
    by code_simp
  have seg': "[] \<in> set (split (CHR ''_'') (m_name ?m1))"
    by code_simp
  have ok: "snakeCaseToPascalCase ''lambda_invoke'' = Inr ''LambdaInvoke''"
    by code_simp
  have mem1: "?m1 \<in> set (r_metrics ?in1)"
    by (simp add: example_schema_def)
  have mem2: "?m2 \<in> set (r_metrics ?in2)"
    by (simp add: example_schema_def)
  have refs: "m_metadata ?m2 = Some [?r]" and r: "?r \<in> set [?r]"
    by (simp_all add: example_metric_def)
  have t: "getTypeOrThrow (r_types ?in2) (mm_type ?r) = Inr example_unnamed"
    by code_simp
  have en: "mt_allowedValues example_unnamed \<noteq> None" and nm: "mt_name example_unnamed = []"
    by (simp_all add: example_unnamed_def)
  note one = name_conversion_partial [where s = "''foo_''" and m = ?m1 and input = ?in1
      and dest = "''out.ts''" and st = "[]"]
  note two = name_conversion_partial [where m = ?m2 and input = ?in2 and dest = "''out.ts''"
      and st = "[]" and t = example_unnamed and refs = "[?r]" and r = ?r]
  from one [THEN conjunct1, THEN iffD2, OF seg]
  obtain e where e: "snakeCaseToPascalCase ''foo_'' = Inl e" ..
  from one [THEN conjunct2, THEN conjunct2, THEN conjunct1, THEN mp, OF e] e
  have 1: "snakeCaseToPascalCase ''foo_'' = Inl (TypeError undefinedToUpperCase)"
    by (simp only:)
  note four = one [THEN conjunct2, THEN conjunct2, THEN conjunct2, THEN conjunct1, THEN mp, OF seg']
  from four [THEN conjunct2, THEN mp, OF mem1]
  have 2: "\<exists>e. fst (generateFile ?in1 ''out.ts'' []) = Inl e" .
  note five = two [THEN conjunct2, THEN conjunct2, THEN conjunct2, THEN conjunct2, THEN mp,
      OF conjI [OF en nm]]
  from five [THEN conjunct2, THEN mp, OF conjI [OF mem2 conjI [OF refs conjI [OF r t]]]]
  have 3: "\<exists>e. fst (generateFile ?in2 ''out.ts'' []) = Inl e" .
  from seg 1 ok 2 3 show ?thesis
    by (intro conjI)
qed

text \<open>
  The claim as stated fails on both counts. A schema may hold an enumerated metadata type
  whose name is the empty string and still yield a file, when no metric references the
  type. And for a metric whose name ends in an underscore the error thrown need not be
  the TypeError of the conversion: with no type declared, the lookup of the first common
  name throws first.
\<close>

theorem name_conversion_counterexample:
  "mt_allowedValues example_unnamed \<noteq> None
   \<and> mt_name example_unnamed = []
   \<and> example_unnamed \<in> set (inputTypes (example_schema [example_unnamed] []))
   \<and> \<not> isl (fst (generateFile (example_schema [example_unnamed] []) ''out.ts'' []))
   \<and> [] \<in> set (split (CHR ''_'') (m_name (example_metric ''foo_'' [])))
   \<and> fst (generateFile \<lparr> r_types = Some [], r_metrics = [example_metric ''foo_'' []] \<rparr> ''out.ts'' [])
       = Inl (Error ''did not find type: awsAccount'')"
  by code_simp

end
